theory Spec2Isabelle
  imports Main "HOL-Library.Word"
begin

unbundle bit_operations_syntax

section \<open>Data model of the WASM host\<close>

text \<open>
  The WASM host program registers four functions with the guest:
  \<^verbatim>\<open>getField\<close>, \<^verbatim>\<open>putField\<close>, \<^verbatim>\<open>log\<close> and \<^verbatim>\<open>getCurrentTime\<close>. Each receives
  its arguments as 32-bit integers (the registered signatures have only \<^verbatim>\<open>I32\<close>
  parameters, so \<^verbatim>\<open>args[i].I32()\<close> always applies), indexes the guest's linear memory
  with Go slice expressions and returns a pair of a value list and a Go error. A nil value
  list is the empty list.
\<close>

type_synonym byte = "8 word"
type_synonym int32 = "32 word"
type_synonym uint64 = "64 word"

datatype LogLevel = LogLevelDebug | LogLevelInfo | LogLevelWarn | LogLevelError | LogLevelCritical

fun LogLevel_code :: "LogLevel \<Rightarrow> int32" where
  "LogLevel_code LogLevelDebug = 0"
| "LogLevel_code LogLevelInfo = 1"
| "LogLevel_code LogLevelWarn = 2"
| "LogLevel_code LogLevelError = 3"
| "LogLevel_code LogLevelCritical = 4"

datatype Status = StatusOK | StatusInternalFailure | StatusInvalidArgument | StatusNotFound

fun Status_code :: "Status \<Rightarrow> int32" where
  "Status_code StatusOK = 0"
| "Status_code StatusInternalFailure = 1"
| "Status_code StatusInvalidArgument = 2"
| "Status_code StatusNotFound = 3"

text \<open>
  Go error values. \<open>RequiresArguments f k n\<close> is
  \<^verbatim>\<open>fmt.Errorf("f requires k arguments, but got %d", n)\<close>; \<open>Wrapped msg e\<close> is
  \<^verbatim>\<open>fmt.Errorf("msg: %w", e)\<close>. The other three are errors made outside this file: by
  the runtime's export table, by a call into the guest, and by \<^verbatim>\<open>encoding/json\<close>.
\<close>

datatype go_error =
    ExportNotFound string
  | GuestTrap nat
  | CodecError nat
  | RequiresArguments string nat nat
  | Wrapped string go_error

text \<open>Go run-time panics. None of the host functions recovers from one.\<close>

datatype go_panic = SliceBoundsOutOfRange | IndexOutOfRange | InterfaceConversion

text \<open>
  What a Go function with the result list \<^verbatim>\<open>(T, error)\<close> does: it panics, or it
  returns a value together with an error that may be \<^verbatim>\<open>nil\<close>.
\<close>

datatype 'a result = Panic go_panic | Return 'a "go_error option"

text \<open>
  The dynamic value a \<^verbatim>\<open>wasmer.NativeFunction\<close> hands back as \<^verbatim>\<open>interface{}\<close>:
  an \<^verbatim>\<open>int32\<close>, or a value of any other dynamic type.
\<close>

datatype native_value = VInt32 int32 | VOther

text \<open>The lines the host writes with the \<^verbatim>\<open>log\<close> package, by call site.\<close>

datatype 'v log_entry =
    LogGetField "byte list"
  | LogPutField "byte list" "byte list"
  | LogPutFieldDecoded "byte list" 'v
  | LogGuest int32 "byte list"

text \<open>
  \<^verbatim>\<open>wasmModule\<close> with the state its methods reach: whether the instance exports a
  memory named \<^verbatim>\<open>memory\<close>, the bytes of that memory (\<^verbatim>\<open>memory.Data()\<close>, a slice
  whose capacity is its length), the guest's \<^verbatim>\<open>malloc\<close> export, which runs guest code
  and so may change the memory, and the output of the standard logger.
\<close>

record 'v wasmModule =
  memory_exported :: bool
  memory_data :: "byte list"
  mallocFunc :: "int32 \<Rightarrow> byte list \<Rightarrow> (go_error + native_value) \<times> byte list"
  log_output :: "'v log_entry list"

text \<open>
  The two functions of \<^verbatim>\<open>encoding/json\<close> the host calls, as parameters:
  \<^verbatim>\<open>json.Marshal\<close> on a Go string and \<^verbatim>\<open>json.Unmarshal\<close> into an \<^verbatim>\<open>interface{}\<close>.
\<close>

record 'v json =
  Marshal :: "byte list \<Rightarrow> go_error + byte list"
  Unmarshal :: "byte list \<Rightarrow> go_error + 'v"

section \<open>Guest memory access\<close>

definition bytes_of :: "string \<Rightarrow> byte list" where
  "bytes_of s = map (\<lambda>c. of_nat (of_char c)) s"

text \<open>
  The bounds check of the slice expression \<^verbatim>\<open>b[lo:hi]\<close> with \<^verbatim>\<open>int32\<close> indices:
  the indices are read as signed integers and must satisfy
  \<^verbatim>\<open>0 <= lo <= hi <= cap(b)\<close>.
\<close>

definition slice_bounds :: "byte list \<Rightarrow> int32 \<Rightarrow> int32 \<Rightarrow> go_panic + nat \<times> nat" where
  "slice_bounds b lo hi =
     (if 0 \<le> sint lo \<and> sint lo \<le> sint hi \<and> sint hi \<le> int (length b)
      then Inr (nat (sint lo), nat (sint hi))
      else Inl SliceBoundsOutOfRange)"

text \<open>Reading \<^verbatim>\<open>b[lo:hi]\<close>.\<close>

definition slice :: "byte list \<Rightarrow> int32 \<Rightarrow> int32 \<Rightarrow> go_panic + byte list" where
  "slice b lo hi =
     (case slice_bounds b lo hi of
        Inl p \<Rightarrow> Inl p
      | Inr (l, h) \<Rightarrow> Inr (take (h - l) (drop l b)))"

text \<open>
  \<^verbatim>\<open>copy(b[lo:hi], src)\<close>: copies \<open>min (hi - lo) (length src)\<close> bytes. The result is
  the memory after the copy.
\<close>

definition copy_bytes :: "byte list \<Rightarrow> int32 \<Rightarrow> int32 \<Rightarrow> byte list \<Rightarrow> go_panic + byte list" where
  "copy_bytes b lo hi src =
     (case slice_bounds b lo hi of
        Inl p \<Rightarrow> Inl p
      | Inr (l, h) \<Rightarrow>
          let n = min (h - l) (length src)
          in Inr (take l b @ take n src @ drop (l + n) b))"

definition le32 :: "int32 \<Rightarrow> byte list" where
  "le32 v = [ucast v, ucast (drop_bit 8 v), ucast (drop_bit 16 v), ucast (drop_bit 24 v)]"

definition le64 :: "uint64 \<Rightarrow> byte list" where
  "le64 v = [ucast v, ucast (drop_bit 8 v), ucast (drop_bit 16 v), ucast (drop_bit 24 v),
             ucast (drop_bit 32 v), ucast (drop_bit 40 v), ucast (drop_bit 48 v),
             ucast (drop_bit 56 v)]"

text \<open>
  \<^verbatim>\<open>binary.LittleEndian.PutUint32(b[lo:hi], v)\<close>: after the slice expression, the
  library checks \<^verbatim>\<open>b[3]\<close> and then stores four bytes.
\<close>

definition PutUint32 :: "byte list \<Rightarrow> int32 \<Rightarrow> int32 \<Rightarrow> int32 \<Rightarrow> go_panic + byte list" where
  "PutUint32 b lo hi v =
     (case slice_bounds b lo hi of
        Inl p \<Rightarrow> Inl p
      | Inr (l, h) \<Rightarrow>
          if h - l < 4 then Inl IndexOutOfRange
          else Inr (take l b @ le32 v @ drop (l + 4) b))"

text \<open>\<^verbatim>\<open>binary.LittleEndian.PutUint64(b[lo:hi], v)\<close>, which checks \<^verbatim>\<open>b[7]\<close>.\<close>

definition PutUint64 :: "byte list \<Rightarrow> int32 \<Rightarrow> int32 \<Rightarrow> uint64 \<Rightarrow> go_panic + byte list" where
  "PutUint64 b lo hi v =
     (case slice_bounds b lo hi of
        Inl p \<Rightarrow> Inl p
      | Inr (l, h) \<Rightarrow>
          if h - l < 8 then Inl IndexOutOfRange
          else Inr (take l b @ le64 v @ drop (l + 8) b))"

text \<open>
  The value of a byte sequence read as a little-endian unsigned integer, the reading the
  guest applies to what \<^verbatim>\<open>PutUint32\<close> and \<^verbatim>\<open>PutUint64\<close> stored.
\<close>

fun little_endian :: "byte list \<Rightarrow> 'a::len word" where
  "little_endian [] = 0"
| "little_endian (b # bs) = ucast b OR push_bit 8 (little_endian bs)"

section \<open>The host functions\<close>

definition raw :: "byte list" where
  "raw = bytes_of ''df00000001a464617461ab68656c6c6f20776f726c64''"

text \<open>
  \<^verbatim>\<open>malloc\<close>: calls the guest's export and asserts that the result is an
  \<^verbatim>\<open>int32\<close>; the assertion \<^verbatim>\<open>ptr.(int32)\<close> panics on any other dynamic type.
\<close>

definition malloc :: "'v wasmModule \<Rightarrow> int32 \<Rightarrow> int32 result \<times> 'v wasmModule" where
  "malloc m sz =
     (case mallocFunc m sz (memory_data m) of
        (Inl err, mem') \<Rightarrow> (Return 0 (Some err), m\<lparr>memory_data := mem'\<rparr>)
      | (Inr (VInt32 ptr), mem') \<Rightarrow> (Return ptr None, m\<lparr>memory_data := mem'\<rparr>)
      | (Inr VOther, mem') \<Rightarrow> (Panic InterfaceConversion, m\<lparr>memory_data := mem'\<rparr>))"

definition getField ::
  "'v json \<Rightarrow> 'v wasmModule \<Rightarrow> int32 list \<Rightarrow> int32 list result \<times> 'v wasmModule" where
  "getField js m args =
     (case args of
        [dataPtr, dataLen, rtnPtr, rtnLen] \<Rightarrow>
          if \<not> memory_exported m
          then (Return [] (Some (Wrapped ''failed to get the `memory` memory''
                                   (ExportNotFound ''memory''))), m)
          else
            (case slice (memory_data m) dataPtr (dataPtr + dataLen) of
               Inl p \<Rightarrow> (Panic p, m)
             | Inr data \<Rightarrow>
                 let m1 = m\<lparr>log_output := log_output m @ [LogGetField data]\<rparr> in
                 if data = bytes_of ''message'' then
                   (case Marshal js raw of
                      Inl err \<Rightarrow> (Return [] (Some err), m1)
                    | Inr value \<Rightarrow>
                        let valueSize = (of_nat (length value) :: int32) in
                        (case malloc m1 valueSize of
                           (Panic p, m2) \<Rightarrow> (Panic p, m2)
                         | (Return _ (Some err), m2) \<Rightarrow> (Return [] (Some err), m2)
                         | (Return valuePtr None, m2) \<Rightarrow>
                             (case copy_bytes (memory_data m2) valuePtr (valuePtr + valueSize) value of
                                Inl p \<Rightarrow> (Panic p, m2)
                              | Inr mem3 \<Rightarrow>
                                  (case PutUint32 mem3 rtnPtr (rtnPtr + 4) valuePtr of
                                     Inl p \<Rightarrow> (Panic p, m2\<lparr>memory_data := mem3\<rparr>)
                                   | Inr mem4 \<Rightarrow>
                                       (case PutUint32 mem4 rtnLen (rtnLen + 4) valueSize of
                                          Inl p \<Rightarrow> (Panic p, m2\<lparr>memory_data := mem4\<rparr>)
                                        | Inr mem5 \<Rightarrow>
                                            (Return [0] None, m2\<lparr>memory_data := mem5\<rparr>))))))
                 else (Return [0] None, m1))
      | _ \<Rightarrow> (Return [] (Some (RequiresArguments ''get_field'' 4 (length args))), m))"

definition putField ::
  "'v json \<Rightarrow> 'v wasmModule \<Rightarrow> int32 list \<Rightarrow> int32 list result \<times> 'v wasmModule" where
  "putField js m args =
     (case args of
        [keyPtr, keyLen, valuePtr, valueLen] \<Rightarrow>
          if \<not> memory_exported m
          then (Return [Status_code StatusInternalFailure]
                  (Some (Wrapped ''failed to get the `memory` memory''
                           (ExportNotFound ''memory''))), m)
          else
            (case slice (memory_data m) keyPtr (keyPtr + keyLen) of
               Inl p \<Rightarrow> (Panic p, m)
             | Inr key \<Rightarrow>
                 (case slice (memory_data m) valuePtr (valuePtr + valueLen) of
                    Inl p \<Rightarrow> (Panic p, m)
                  | Inr value \<Rightarrow>
                      let m1 = m\<lparr>log_output := log_output m @ [LogPutField key value]\<rparr> in
                      (case Unmarshal js value of
                         Inl err \<Rightarrow>
                           (Return [Status_code StatusInvalidArgument]
                              (Some (Wrapped ''failed to decode value'' err)), m1)
                       | Inr v \<Rightarrow>
                           (Return [Status_code StatusOK] None,
                            m1\<lparr>log_output := log_output m1 @ [LogPutFieldDecoded key v]\<rparr>))))
      | _ \<Rightarrow> (Return [] (Some (RequiresArguments ''put_field'' 4 (length args))), m))"

definition log :: "'v wasmModule \<Rightarrow> int32 list \<Rightarrow> int32 list result \<times> 'v wasmModule" where
  "log m args =
     (case args of
        [level, dataPtr, dataLen] \<Rightarrow>
          if \<not> memory_exported m
          then (Return [] (Some (Wrapped ''failed to get the `memory` memory''
                                   (ExportNotFound ''memory''))), m)
          else
            (case slice (memory_data m) dataPtr (dataPtr + dataLen) of
               Inl p \<Rightarrow> (Panic p, m)
             | Inr data \<Rightarrow>
                 (Return [0] None, m\<lparr>log_output := log_output m @ [LogGuest level data]\<rparr>))
      | _ \<Rightarrow> (Return [] (Some (RequiresArguments ''log'' 3 (length args))), m))"

text \<open>
  \<^verbatim>\<open>getCurrentTime\<close>; \<open>now\<close> is the reading \<^verbatim>\<open>uint64(time.Now().UnixNano())\<close> the
  call takes from the host's wall clock.
\<close>

definition getCurrentTime ::
  "uint64 \<Rightarrow> 'v wasmModule \<Rightarrow> int32 list \<Rightarrow> int32 list result \<times> 'v wasmModule" where
  "getCurrentTime now m args =
     (case args of
        [ptr] \<Rightarrow>
          if \<not> memory_exported m
          then (Return [] (Some (Wrapped ''failed to get the `memory` memory''
                                   (ExportNotFound ''memory''))), m)
          else
            (case PutUint64 (memory_data m) ptr (ptr + 8) now of
               Inl p \<Rightarrow> (Panic p, m)
             | Inr mem' \<Rightarrow> (Return [0] None, m\<lparr>memory_data := mem'\<rparr>))
      | _ \<Rightarrow> (Return [] (Some (RequiresArguments ''elastic_get_current_time_nanoseconds'' 1
                                   (length args))), m))"

text \<open>
  The import object built in \<^verbatim>\<open>newWasmModule\<close>: the functions registered in the
  namespace \<^verbatim>\<open>elastic\<close>, by the name the guest imports them under.
\<close>

definition elastic ::
  "'v json \<Rightarrow> uint64 \<Rightarrow> string \<Rightarrow>
     ('v wasmModule \<Rightarrow> int32 list \<Rightarrow> int32 list result \<times> 'v wasmModule) option" where
  "elastic js now name =
     (if name = ''elastic_get_field'' then Some (getField js)
      else if name = ''elastic_put_field'' then Some (putField js)
      else if name = ''elastic_log'' then Some log
      else if name = ''elastic_get_current_time_nanoseconds'' then Some (getCurrentTime now)
      else None)"

text \<open>
  A range of \<open>n\<close> bytes at offset \<open>p\<close> that the host's slice expressions accept: it
  lies inside the memory and ends below \<open>2 ^ 31\<close>, where the signed reading of an
  offset is the offset itself.
\<close>

definition in_bounds :: "byte list \<Rightarrow> int32 \<Rightarrow> nat \<Rightarrow> bool" where
  "in_bounds b p n \<longleftrightarrow> unat p + n \<le> length b \<and> unat p + n < 2 ^ 31"

section \<open>Concrete instances\<close>

text \<open>
  A codec for running the host functions on concrete inputs. It covers the fragment of
  \<^verbatim>\<open>encoding/json\<close> that needs no escaping: a string of printable ASCII characters
  other than the double quote, the backslash and the three characters the Go encoder
  escapes for HTML is marshalled between two double quotes; a buffer that is one such
  literal is unmarshalled to its content. Everywhere else it reports an error, also where
  \<^verbatim>\<open>encoding/json\<close> would go on (escapes, numbers, arrays, objects, UTF-8).
\<close>

definition plain_byte :: "byte \<Rightarrow> bool" where
  "plain_byte c \<longleftrightarrow> 0x20 \<le> c \<and> c < 0x7f \<and> c \<noteq> 0x22 \<and> c \<noteq> 0x5c \<and> c \<noteq> 0x26 \<and> c \<noteq> 0x3c \<and> c \<noteq> 0x3e"

definition plain_json :: "(byte list) json" where
  "plain_json =
     \<lparr>Marshal = (\<lambda>s. if list_all plain_byte s then Inr (0x22 # s @ [0x22]) else Inl (CodecError 1)),
      Unmarshal = (\<lambda>b. case b of
                          [] \<Rightarrow> Inl (CodecError 0)
                        | q # rest \<Rightarrow>
                            if q = 0x22 \<and> rest \<noteq> [] \<and> last rest = 0x22 \<and> list_all plain_byte (butlast rest)
                            then Inr (butlast rest) else Inl (CodecError 0))\<rparr>"

text \<open>
  An instance with 128 bytes of exported memory that starts with the text
  \<^verbatim>\<open>message\<close> followed by the four bytes of the JSON literal \<^verbatim>\<open>"hi"\<close>, and an
  allocator that always answers with the address 16 and leaves the memory as it is.
\<close>

definition example_memory :: "byte list" where
  "example_memory = bytes_of ''message'' @ [0x22, 0x68, 0x69, 0x22] @ replicate 117 0"

definition example_module :: "(byte list) wasmModule" where
  "example_module =
     \<lparr>memory_exported = True,
      memory_data = example_memory,
      mallocFunc = (\<lambda>sz mem. (Inr (VInt32 16), mem)),
      log_output = []\<rparr>"

text \<open>The same instance with an allocator that always fails.\<close>

definition failing_module :: "(byte list) wasmModule" where
  "failing_module = example_module\<lparr>mallocFunc := (\<lambda>sz mem. (Inl (GuestTrap 0), mem))\<rparr>"

section \<open>Signed reading of 32-bit offsets\<close>

lemma shift_mod:
  fixes x k :: int
  assumes "0 \<le> x" "x < 2 * k"
  shows "(x + k) mod (2 * k) - k = (if x < k then x else x - 2 * k)"
proof (cases "x < k")
  case True
  then have "(x + k) mod (2 * k) = x + k"
    using assms by (intro mod_pos_pos_trivial) linarith+
  with True show ?thesis by simp
next
  case False
  have "(x + k) mod (2 * k) = ((x - k) + 2 * k) mod (2 * k)"
    by (simp add: algebra_simps)
  also have "\<dots> = (x - k) mod (2 * k)"
    by (rule mod_add_self2)
  also have "\<dots> = x - k"
    using assms False by (intro mod_pos_pos_trivial) linarith+
  finally show ?thesis using False by simp
qed

lemma sint32_cases:
  fixes w :: int32
  shows "sint w = (if uint w < 2147483648 then uint w else uint w - 4294967296)"
proof -
  have b: "0 \<le> uint w" "uint w < 2 * 2147483648"
    using uint_bounded [of w] by simp_all
  have "sint w = (uint w + 2147483648) mod (2 * 2147483648) - 2147483648"
    unfolding sint_uint signed_take_bit_eq_take_bit_shift take_bit_eq_mod
    by simp
  also have "\<dots> = (if uint w < 2147483648 then uint w else uint w - 2 * 2147483648)"
    using b by (rule shift_mod)
  finally show ?thesis by simp
qed

text \<open>
  The heart of the bounds discipline: the sum \<open>p + n\<close> is computed in 32 bits and both
  offsets are read as signed, and still every pair whose unsigned sum overflows or passes
  the end of the memory fails the check of the slice expression.
\<close>

lemma slice_bounds_out_of_range:
  assumes "2 ^ 32 \<le> unat p + unat n \<or> length b < unat p + unat n"
  shows "slice_bounds b p (p + n) = Inl SliceBoundsOutOfRange"
proof -
  define P N S where "P = uint p" and "N = uint n" and "S = uint (p + n)"
  have bp: "0 \<le> P" "P < 4294967296" and bn: "0 \<le> N" "N < 4294967296"
    using uint_bounded [of p] uint_bounded [of n] by (simp_all add: P_def N_def)
  have S: "S = (if P + N < 4294967296 then P + N else P + N - 4294967296)"
    unfolding S_def P_def N_def by (simp add: uint_plus_if')
  have e: "P + N = int (unat p + unat n)"
    by (simp add: P_def N_def)
  have k: "(2::nat) ^ 32 = 4294967296" by simp
  have H: "4294967296 \<le> P + N \<or> int (length b) < P + N"
    using assms unfolding e k by linarith
  have sp: "sint p = (if P < 2147483648 then P else P - 4294967296)"
    unfolding P_def by (rule sint32_cases)
  have ss: "sint (p + n) = (if S < 2147483648 then S else S - 4294967296)"
    unfolding S_def by (rule sint32_cases)
  have "\<not> (0 \<le> sint p \<and> sint p \<le> sint (p + n) \<and> sint (p + n) \<le> int (length b))"
  proof (cases "P + N < 4294967296")
    case True
    then have "S = P + N" using S by simp
    then show ?thesis
      unfolding sp ss using H bp bn True
      by (cases "P < 2147483648"; cases "P + N < 2147483648"; simp)
  next
    case False
    then have "S = P + N - 4294967296" using S by simp
    then show ?thesis
      unfolding sp ss using H bp bn False
      by (cases "P < 2147483648"; cases "P + N - 4294967296 < 2147483648"; simp)
  qed
  then show ?thesis
    by (simp add: slice_bounds_def)
qed

lemma slice_out_of_range:
  assumes "slice_bounds b lo hi = Inl e"
  shows "slice b lo hi = Inl e"
    and "copy_bytes b lo hi src = Inl e"
    and "PutUint32 b lo hi v = Inl e"
    and "PutUint64 b lo hi t = Inl e"
  using assms by (simp_all add: slice_def copy_bytes_def PutUint32_def PutUint64_def)

section \<open>Bounds of every access to guest memory\<close>

text \<open>
  C1. Whenever the unsigned sum of a pointer and a length overflows 32 bits or exceeds the
  size of the instance's memory, every form of access the host functions use on that pair
  (the read of a slice, \<^verbatim>\<open>copy\<close> into it, \<^verbatim>\<open>PutUint32\<close> and \<^verbatim>\<open>PutUint64\<close> on it)
  fails the bounds check of the slice expression with the run-time error
  ``slice bounds out of range'' and yields no bytes and no changed memory. A host function
  handed such a pair as the name, key, value or message range, or as the 8-byte range of the
  time stamp, stops at that check with the module exactly as it was.
\<close>

theorem out_of_range_pair_rejected:
  assumes "2 ^ 32 \<le> unat p + unat n \<or> length (memory_data m) < unat p + unat n"
    and "memory_exported m"
  shows "slice (memory_data m) p (p + n) = Inl SliceBoundsOutOfRange
       \<and> copy_bytes (memory_data m) p (p + n) src = Inl SliceBoundsOutOfRange
       \<and> PutUint32 (memory_data m) p (p + n) v = Inl SliceBoundsOutOfRange
       \<and> PutUint64 (memory_data m) p (p + n) t = Inl SliceBoundsOutOfRange
       \<and> getField js m [p, n, rp, rl] = (Panic SliceBoundsOutOfRange, m)
       \<and> putField js m [p, n, vp, vl] = (Panic SliceBoundsOutOfRange, m)
       \<and> putField js m [kp, kl, p, n] = (Panic SliceBoundsOutOfRange, m)
       \<and> log m [lvl, p, n] = (Panic SliceBoundsOutOfRange, m)
       \<and> (n = 8 \<longrightarrow> getCurrentTime now m [p] = (Panic SliceBoundsOutOfRange, m))"
proof -
  have b: "slice_bounds (memory_data m) p (p + n) = Inl SliceBoundsOutOfRange"
    using assms(1) by (rule slice_bounds_out_of_range)
  note f = slice_out_of_range [OF b]
  have key: "slice (memory_data m) kp (kp + kl) = Inl SliceBoundsOutOfRange
             \<or> (\<exists>k. slice (memory_data m) kp (kp + kl) = Inr k)"
    by (auto simp: slice_def slice_bounds_def)
  have g: "getField js m [p, n, rp, rl] = (Panic SliceBoundsOutOfRange, m)"
    using assms(2) by (simp add: getField_def f)
  have p1: "putField js m [p, n, vp, vl] = (Panic SliceBoundsOutOfRange, m)"
    using assms(2) by (simp add: putField_def f)
  have p2: "putField js m [kp, kl, p, n] = (Panic SliceBoundsOutOfRange, m)"
    using assms(2) key by (auto simp: putField_def f)
  have l: "log m [lvl, p, n] = (Panic SliceBoundsOutOfRange, m)"
    using assms(2) by (simp add: log_def f)
  have t: "n = 8 \<longrightarrow> getCurrentTime now m [p] = (Panic SliceBoundsOutOfRange, m)"
    using assms(2) f(4) [of now] by (auto simp: getCurrentTime_def)
  show ?thesis
    using f g p1 p2 l t by simp
qed

theorem out_of_range_pair_rejected_witness:
  "(2 ^ 32 \<le> unat (0xFFFFFFFC :: int32) + unat (8 :: int32)
      \<or> length (memory_data example_module) < unat (0xFFFFFFFC :: int32) + unat (8 :: int32))
   \<and> memory_exported example_module
   \<and> slice (memory_data example_module) 0xFFFFFFFC (0xFFFFFFFC + 8) = Inl SliceBoundsOutOfRange
   \<and> copy_bytes (memory_data example_module) 0xFFFFFFFC (0xFFFFFFFC + 8) [1, 2] = Inl SliceBoundsOutOfRange
   \<and> PutUint32 (memory_data example_module) 0xFFFFFFFC (0xFFFFFFFC + 8) 7 = Inl SliceBoundsOutOfRange
   \<and> PutUint64 (memory_data example_module) 0xFFFFFFFC (0xFFFFFFFC + 8) 7 = Inl SliceBoundsOutOfRange
   \<and> getField plain_json example_module [0xFFFFFFFC, 8, 100, 104] = (Panic SliceBoundsOutOfRange, example_module)
   \<and> putField plain_json example_module [0xFFFFFFFC, 8, 0, 7] = (Panic SliceBoundsOutOfRange, example_module)
   \<and> putField plain_json example_module [0, 7, 0xFFFFFFFC, 8] = (Panic SliceBoundsOutOfRange, example_module)
   \<and> log example_module [3, 0xFFFFFFFC, 8] = (Panic SliceBoundsOutOfRange, example_module)
   \<and> getCurrentTime 1700000000000000000 example_module [0xFFFFFFFC] = (Panic SliceBoundsOutOfRange, example_module)"
proof -
  have h1: "2 ^ 32 \<le> unat (0xFFFFFFFC :: int32) + unat (8 :: int32)
      \<or> length (memory_data example_module) < unat (0xFFFFFFFC :: int32) + unat (8 :: int32)"
    by simp
  have h2: "memory_exported example_module"
    by (simp add: example_module_def)
  show ?thesis
    using h1 h2
      out_of_range_pair_rejected [OF h1 h2, of "[1, 2]" 7 7 plain_json 100 104 0 7 0 7 3 1700000000000000000]
    by simp
qed

section \<open>Outcomes of the host functions\<close>

lemma example_slices:
  "slice example_memory 0 7 = Inr (bytes_of ''message'')"
  "slice example_memory 1 4 = Inr (bytes_of ''ess'')"
  "slice example_memory 7 11 = Inr [0x22, 0x68, 0x69, 0x22]"
  by (simp_all add: slice_def slice_bounds_def example_memory_def bytes_of_def)

text \<open>
  C3. A call of get-field whose name is read successfully and is not a name the host knows
  returns the status OK with a nil error, writes nothing to guest memory (so nothing
  reaches the out-parameters) and never returns the status NotFound. The only trace is the
  line in the host's log.
\<close>

theorem getField_miss:
  assumes "memory_exported m"
    and "slice (memory_data m) dataPtr (dataPtr + dataLen) = Inr name"
    and "name \<noteq> bytes_of ''message''"
  shows "getField js m [dataPtr, dataLen, rtnPtr, rtnLen]
           = (Return [Status_code StatusOK] None, m\<lparr>log_output := log_output m @ [LogGetField name]\<rparr>)
       \<and> memory_data (snd (getField js m [dataPtr, dataLen, rtnPtr, rtnLen])) = memory_data m
       \<and> fst (getField js m [dataPtr, dataLen, rtnPtr, rtnLen]) \<noteq> Return [Status_code StatusNotFound] e"
  using assms by (simp add: getField_def)

theorem getField_miss_witness:
  "memory_exported example_module
   \<and> slice (memory_data example_module) 1 (1 + 3) = Inr (bytes_of ''ess'')
   \<and> bytes_of ''ess'' \<noteq> bytes_of ''message''
   \<and> getField plain_json example_module [1, 3, 100, 104]
        = (Return [Status_code StatusOK] None,
           example_module\<lparr>log_output := log_output example_module @ [LogGetField (bytes_of ''ess'')]\<rparr>)
   \<and> memory_data (snd (getField plain_json example_module [1, 3, 100, 104])) = memory_data example_module
   \<and> fst (getField plain_json example_module [1, 3, 100, 104]) \<noteq> Return [Status_code StatusNotFound] None"
proof -
  have h1: "memory_exported example_module"
    by (simp add: example_module_def)
  have h2: "slice (memory_data example_module) 1 (1 + 3) = Inr (bytes_of ''ess'')"
    by (simp add: example_module_def example_slices)
  have h3: "bytes_of ''ess'' \<noteq> bytes_of ''message''"
    by (simp add: bytes_of_def)
  show ?thesis
    using h1 h2 h3 getField_miss [OF h1 h2 h3, of plain_json 100 104 None]
    by simp
qed

text \<open>
  C10. Once the message has been read, the log function returns the status OK for every
  32-bit level, inside the enumeration or not: the level only appears in the line written
  to the log, and two calls that differ in the level alone return the same result and
  leave guest memory as it was.
\<close>

theorem log_accepts_any_level:
  assumes "memory_exported m"
    and "slice (memory_data m) dataPtr (dataPtr + dataLen) = Inr msg"
  shows "log m [level, dataPtr, dataLen]
           = (Return [Status_code StatusOK] None, m\<lparr>log_output := log_output m @ [LogGuest level msg]\<rparr>)
       \<and> fst (log m [level, dataPtr, dataLen]) = fst (log m [level', dataPtr, dataLen])
       \<and> memory_data (snd (log m [level, dataPtr, dataLen])) = memory_data m"
  using assms by (simp add: log_def)

theorem log_accepts_any_level_witness:
  "memory_exported example_module
   \<and> slice (memory_data example_module) 0 (0 + 7) = Inr (bytes_of ''message'')
   \<and> log example_module [99, 0, 7]
        = (Return [Status_code StatusOK] None,
           example_module\<lparr>log_output := log_output example_module @ [LogGuest 99 (bytes_of ''message'')]\<rparr>)
   \<and> fst (log example_module [99, 0, 7]) = fst (log example_module [LogLevel_code LogLevelError, 0, 7])
   \<and> memory_data (snd (log example_module [99, 0, 7])) = memory_data example_module"
proof -
  have h1: "memory_exported example_module"
    by (simp add: example_module_def)
  have h2: "slice (memory_data example_module) 0 (0 + 7) = Inr (bytes_of ''message'')"
    by (simp add: example_module_def example_slices)
  show ?thesis
    using h1 h2 log_accepts_any_level [OF h1 h2, of 99 "LogLevel_code LogLevelError"]
      log_accepts_any_level [OF h1 h2, of "LogLevel_code LogLevelError" 99]
    by simp
qed

text \<open>
  C4. With the key and the value buffer read, put-field returns the status
  InvalidArgument when the value fails to decode (together with the wrapped decoder
  error) and the status OK when it decodes. In both cases the module is unchanged but for
  the lines added to the log.
\<close>

theorem putField_decode_status:
  assumes "memory_exported m"
    and "slice (memory_data m) keyPtr (keyPtr + keyLen) = Inr key"
    and "slice (memory_data m) valuePtr (valuePtr + valueLen) = Inr val"
  shows "(Unmarshal js val = Inl err \<longrightarrow>
            putField js m [keyPtr, keyLen, valuePtr, valueLen]
              = (Return [Status_code StatusInvalidArgument] (Some (Wrapped ''failed to decode value'' err)),
                 m\<lparr>log_output := log_output m @ [LogPutField key val]\<rparr>))
       \<and> (Unmarshal js val = Inr v \<longrightarrow>
            putField js m [keyPtr, keyLen, valuePtr, valueLen]
              = (Return [Status_code StatusOK] None,
                 m\<lparr>log_output := log_output m @ [LogPutField key val, LogPutFieldDecoded key v]\<rparr>))"
  using assms by (simp add: putField_def)

theorem putField_decode_status_witness:
  "memory_exported example_module
   \<and> slice (memory_data example_module) 1 (1 + 3) = Inr (bytes_of ''ess'')
   \<and> slice (memory_data example_module) 0 (0 + 7) = Inr (bytes_of ''message'')
   \<and> slice (memory_data example_module) 7 (7 + 4) = Inr [0x22, 0x68, 0x69, 0x22]
   \<and> Unmarshal plain_json (bytes_of ''message'') = Inl (CodecError 0)
   \<and> Unmarshal plain_json [0x22, 0x68, 0x69, 0x22] = Inr (bytes_of ''hi'')
   \<and> putField plain_json example_module [1, 3, 0, 7]
        = (Return [Status_code StatusInvalidArgument] (Some (Wrapped ''failed to decode value'' (CodecError 0))),
           example_module\<lparr>log_output := log_output example_module
              @ [LogPutField (bytes_of ''ess'') (bytes_of ''message'')]\<rparr>)
   \<and> putField plain_json example_module [1, 3, 7, 4]
        = (Return [Status_code StatusOK] None,
           example_module\<lparr>log_output := log_output example_module
              @ [LogPutField (bytes_of ''ess'') [0x22, 0x68, 0x69, 0x22],
                 LogPutFieldDecoded (bytes_of ''ess'') (bytes_of ''hi'')]\<rparr>)"
proof -
  have h1: "memory_exported example_module"
    by (simp add: example_module_def)
  have h2: "slice (memory_data example_module) 1 (1 + 3) = Inr (bytes_of ''ess'')"
    by (simp add: example_module_def example_slices)
  have h3: "slice (memory_data example_module) 0 (0 + 7) = Inr (bytes_of ''message'')"
    by (simp add: example_module_def example_slices)
  have h4: "slice (memory_data example_module) 7 (7 + 4) = Inr [0x22, 0x68, 0x69, 0x22]"
    by (simp add: example_module_def example_slices)
  have d1: "Unmarshal plain_json (bytes_of ''message'') = Inl (CodecError 0)"
    by (simp add: plain_json_def bytes_of_def)
  have d2: "Unmarshal plain_json [0x22, 0x68, 0x69, 0x22] = Inr (bytes_of ''hi'')"
    by (simp add: plain_json_def bytes_of_def plain_byte_def)
  show ?thesis
    using h1 h2 h3 h4 d1 d2
      putField_decode_status [OF h1 h2 h3, of plain_json "CodecError 0" "bytes_of ''hi''"]
      putField_decode_status [OF h1 h2 h4, of plain_json "CodecError 0" "bytes_of ''hi''"]
    by simp
qed

section \<open>Little-endian stores and their read-back\<close>

lemma little_endian_le32: "little_endian (le32 w) = w"
proof (rule bit_word_eqI)
  fix n :: nat
  assume n: "n < LENGTH(32)"
  consider "n < 8" | "8 \<le> n" "n < 16" | "16 \<le> n" "n < 24" | "24 \<le> n" "n < 32"
    using n by fastforce
  then show "bit (little_endian (le32 w) :: int32) n = bit w n"
    by cases (auto simp add: le32_def bit_simps not_less)
qed

lemma little_endian_le64: "little_endian (le64 w) = w"
proof (rule bit_word_eqI)
  fix n :: nat
  assume n: "n < LENGTH(64)"
  consider "n < 8" | "8 \<le> n" "n < 16" | "16 \<le> n" "n < 24" | "24 \<le> n" "n < 32"
    | "32 \<le> n" "n < 40" | "40 \<le> n" "n < 48" | "48 \<le> n" "n < 56" | "56 \<le> n" "n < 64"
    using n by fastforce
  then show "bit (little_endian (le64 w) :: uint64) n = bit w n"
    by cases (auto simp add: le64_def bit_simps not_less)
qed

lemma in_bounds_slice_bounds:
  assumes "in_bounds b p n"
  shows "slice_bounds b p (p + of_nat n) = Inr (unat p, unat p + n)"
proof -
  define P where "P = uint p"
  have e: "int (unat p) = P" by (simp add: P_def)
  have k: "(2::nat) ^ 31 = 2147483648" by simp
  from assms have a: "int (unat p) + int n \<le> int (length b)" "int (unat p) + int n < 2147483648"
    unfolding in_bounds_def k by linarith+
  have P0: "0 \<le> P" by (simp add: P_def)
  have n: "uint (of_nat n :: int32) = int n"
  proof -
    have "int n < 4294967296"
      using a P0 unfolding e by linarith
    then have "n < 2 ^ LENGTH(32)"
      by simp
    then have "unat (of_nat n :: int32) = n"
      by (intro of_nat_inverse) simp_all
    then show ?thesis by (metis uint_nat)
  qed
  have S: "uint (p + of_nat n) = P + int n"
    using a e by (simp add: uint_plus_if' n P_def)
  have sp: "sint p = P"
    using a P0 unfolding e by (simp add: sint32_cases P_def)
  have ss: "sint (p + of_nat n) = P + int n"
    using a unfolding e by (simp add: sint32_cases S)
  have "nat P = unat p" by (simp add: P_def)
  moreover have "nat (P + int n) = unat p + n"
    using e by linarith
  ultimately show ?thesis
    using a P0 unfolding e by (simp add: slice_bounds_def sp ss)
qed

lemma in_bounds_length:
  "length b' = length b \<Longrightarrow> in_bounds b' p n = in_bounds b p n"
  by (simp add: in_bounds_def)

lemma store_length:
  "l + length xs \<le> length b \<Longrightarrow> length (take l b @ xs @ drop (l + length xs) b) = length b"
  by simp

lemma store_read:
  "l + length xs \<le> length b \<Longrightarrow>
     take (length xs) (drop l (take l b @ xs @ drop (l + length xs) b)) = xs"
  by simp

lemma store_nth:
  assumes "l + length xs \<le> length b" and "i < l \<or> l + length xs \<le> i"
  shows "(take l b @ xs @ drop (l + length xs) b) ! i = b ! i"
proof (cases "i < l")
  case True
  with assms show ?thesis by (simp add: nth_append)
next
  case False
  with assms have i: "l + length xs \<le> i" by simp
  have len: "length (take l b @ xs) = l + length xs"
    using assms(1) by simp
  have "((take l b @ xs) @ drop (l + length xs) b) ! i
               = drop (l + length xs) b ! (i - (l + length xs))"
    using i by (simp only: nth_append len) simp
  also have "\<dots> = b ! (l + length xs + (i - (l + length xs)))"
    using assms(1) by (rule nth_drop)
  also have "\<dots> = b ! i"
    using i by simp
  finally show ?thesis by simp
qed

lemma store_other:
  assumes "l + length xs \<le> length b" and "a + k \<le> l \<or> l + length xs \<le> a"
  shows "take k (drop a (take l b @ xs @ drop (l + length xs) b)) = take k (drop a b)"
proof (rule nth_equalityI)
  show "length (take k (drop a (take l b @ xs @ drop (l + length xs) b))) = length (take k (drop a b))"
    by (simp only: length_take length_drop store_length [OF assms(1)])
next
  fix i
  assume "i < length (take k (drop a (take l b @ xs @ drop (l + length xs) b)))"
  then have "i < min (length b - a) k"
    by (simp only: length_take length_drop store_length [OF assms(1)])
  then have i: "i < k" "a + i < length b"
    by linarith+
  then have "a + i < l \<or> l + length xs \<le> a + i"
    using assms(2) by linarith
  then have "(take l b @ xs @ drop (l + length xs) b) ! (a + i) = b ! (a + i)"
    by (rule store_nth [OF assms(1)])
  moreover have "a + i < length (take l b @ xs @ drop (l + length xs) b)"
    using i by (simp only: store_length [OF assms(1)])
  ultimately show "take k (drop a (take l b @ xs @ drop (l + length xs) b)) ! i = take k (drop a b) ! i"
    using i by (simp only: nth_take nth_drop)
qed

lemma copy_bytes_in_bounds:
  assumes "in_bounds b p (length src)"
  shows "copy_bytes b p (p + of_nat (length src)) src
           = Inr (take (unat p) b @ src @ drop (unat p + length src) b)"
  using in_bounds_slice_bounds [OF assms] by (simp add: copy_bytes_def)

lemma PutUint32_in_bounds:
  assumes "in_bounds b p 4"
  shows "PutUint32 b p (p + 4) v = Inr (take (unat p) b @ le32 v @ drop (unat p + 4) b)"
  using in_bounds_slice_bounds [OF assms] by (simp add: PutUint32_def)

lemma PutUint64_in_bounds:
  assumes "in_bounds b p 8"
  shows "PutUint64 b p (p + 8) v = Inr (take (unat p) b @ le64 v @ drop (unat p + 8) b)"
  using in_bounds_slice_bounds [OF assms] by (simp add: PutUint64_def)

lemma length_le32: "length (le32 v) = 4"
  by (simp add: le32_def)

lemma length_le64: "length (le64 v) = 8"
  by (simp add: le64_def)

lemma store_le32_length:
  assumes "l + 4 \<le> length b"
  shows "length (take l b @ le32 v @ drop (l + 4) b) = length b"
  using assms by (rule store_length [of l "le32 v", unfolded length_le32])

lemma store_le32_read:
  assumes "l + 4 \<le> length b"
  shows "take 4 (drop l (take l b @ le32 v @ drop (l + 4) b)) = le32 v"
  using assms by (rule store_read [of l "le32 v", unfolded length_le32])

lemma store_le32_other:
  assumes "l + 4 \<le> length b" and "a + k \<le> l \<or> l + 4 \<le> a"
  shows "take k (drop a (take l b @ le32 v @ drop (l + 4) b)) = take k (drop a b)"
  using assms by (rule store_other [of l "le32 v", unfolded length_le32])

lemma store_le64_length:
  assumes "l + 8 \<le> length b"
  shows "length (take l b @ le64 v @ drop (l + 8) b) = length b"
  using assms by (rule store_length [of l "le64 v", unfolded length_le64])

lemma store_le64_read:
  assumes "l + 8 \<le> length b"
  shows "take 8 (drop l (take l b @ le64 v @ drop (l + 8) b)) = le64 v"
  using assms by (rule store_read [of l "le64 v", unfolded length_le64])

lemma store_le64_other:
  assumes "l + 8 \<le> length b" and "a + k \<le> l \<or> l + 8 \<le> a"
  shows "take k (drop a (take l b @ le64 v @ drop (l + 8) b)) = take k (drop a b)"
  using assms by (rule store_other [of l "le64 v", unfolded length_le64])

lemma length_raw: "length raw = 44"
  by (simp add: raw_def bytes_of_def)

lemma plain_raw: "list_all plain_byte raw"
  by (simp add: raw_def bytes_of_def plain_byte_def)

lemma length_example_memory: "length example_memory = 128"
  by (simp add: example_memory_def bytes_of_def)

lemma example_module_simps:
  "memory_exported example_module"
  "memory_data example_module = example_memory"
  "mallocFunc example_module sz mem = (Inr (VInt32 16), mem)"
  "log_output example_module = []"
  by (simp_all add: example_module_def)

section \<open>The hit path of get-field\<close>

text \<open>
  The slice expressions that pass their bounds check: the range they name starts at the
  unsigned offset and has the unsigned length, and lies inside the memory.
\<close>

lemma slice_bounds_Inr:
  assumes "slice_bounds b p (p + n) = Inr (lo, hi)"
  shows "lo = unat p \<and> hi = unat p + unat n \<and> unat p + unat n \<le> length b"
proof -
  define P N S where "P = uint p" and "N = uint n" and "S = uint (p + n)"
  have bp: "0 \<le> P" "P < 4294967296" and bn: "0 \<le> N" "N < 4294967296"
    using uint_bounded [of p] uint_bounded [of n] by (simp_all add: P_def N_def)
  have S: "S = (if P + N < 4294967296 then P + N else P + N - 4294967296)"
    unfolding S_def P_def N_def by (simp add: uint_plus_if')
  have sp: "sint p = (if P < 2147483648 then P else P - 4294967296)"
    unfolding P_def by (rule sint32_cases)
  have ss: "sint (p + n) = (if S < 2147483648 then S else S - 4294967296)"
    unfolding S_def by (rule sint32_cases)
  from assms have c: "0 \<le> sint p" "sint p \<le> sint (p + n)" "sint (p + n) \<le> int (length b)"
    and l: "lo = nat (sint p)" and h: "hi = nat (sint (p + n))"
    by (simp_all add: slice_bounds_def split: if_splits)
  have p: "sint p = P"
    using c(1) bp unfolding sp by (simp split: if_splits)
  have s: "sint (p + n) = P + N"
  proof (cases "P + N < 4294967296")
    case True
    then have "S = P + N" using S by simp
    then show ?thesis
      using c(1,2) bp bn unfolding p ss by (simp split: if_splits)
  next
    case False
    then have "S = P + N - 4294967296" using S by simp
    then show ?thesis
      using c(1,2) bp bn False unfolding p ss by (simp split: if_splits)
  qed
  have "nat P = unat p" "nat N = unat n"
    by (simp_all add: P_def N_def)
  then have "nat (P + N) = unat p + unat n"
    using bp bn by (simp add: nat_add_distrib)
  moreover have "P + N \<le> int (length b)"
    using c(3) s by simp
  ultimately show ?thesis
    using l h p s \<open>nat P = unat p\<close> by (simp add: nat_le_iff)
qed

lemma slice_bounds_length_cong:
  "length b' = length b \<Longrightarrow> slice_bounds b' lo hi = slice_bounds b lo hi"
  by (simp add: slice_bounds_def)

lemma slice_bounds_accepted:
  assumes "slice_bounds b p (p + n) \<noteq> Inl SliceBoundsOutOfRange"
  shows "slice_bounds b p (p + n) = Inr (unat p, unat p + unat n)"
    and "unat p + unat n \<le> length b"
proof -
  from assms obtain lo hi where e: "slice_bounds b p (p + n) = Inr (lo, hi)"
    by (auto simp: slice_bounds_def split: if_splits)
  from slice_bounds_Inr [OF e] e
  show "slice_bounds b p (p + n) = Inr (unat p, unat p + unat n)"
    and "unat p + unat n \<le> length b"
    by simp_all
qed

lemma copy_bytes_accepted:
  assumes "slice_bounds b p (p + of_nat (length src)) \<noteq> Inl SliceBoundsOutOfRange"
  shows "copy_bytes b p (p + of_nat (length src)) src
           = Inr (take (unat p) b @ take (unat (of_nat (length src) :: int32)) src
                   @ drop (unat p + unat (of_nat (length src) :: int32)) b)"
proof -
  have "unat (of_nat (length src) :: int32) \<le> length src"
    by (simp add: unat_of_nat)
  then have "min (unat (of_nat (length src) :: int32)) (length src) = unat (of_nat (length src) :: int32)"
    by simp
  then show ?thesis
    using slice_bounds_accepted(1) [OF assms] by (simp add: copy_bytes_def Let_def)
qed

lemma PutUint32_accepted:
  assumes "slice_bounds b p (p + 4) \<noteq> Inl SliceBoundsOutOfRange"
  shows "PutUint32 b p (p + 4) v = Inr (take (unat p) b @ le32 v @ drop (unat p + 4) b)"
    and "unat p + 4 \<le> length b"
  using slice_bounds_accepted [OF assms] by (simp_all add: PutUint32_def)

lemma PutUint64_accepted:
  assumes "slice_bounds b p (p + 8) \<noteq> Inl SliceBoundsOutOfRange"
  shows "PutUint64 b p (p + 8) v = Inr (take (unat p) b @ le64 v @ drop (unat p + 8) b)"
    and "unat p + 8 \<le> length b"
  using slice_bounds_accepted [OF assms] by (simp_all add: PutUint64_def)

lemma example_bounds:
  "slice_bounds example_memory 16 (16 + of_nat (length (0x22 # raw @ [0x22]))) \<noteq> Inl SliceBoundsOutOfRange"
  "slice_bounds example_memory 100 (100 + 4) \<noteq> Inl SliceBoundsOutOfRange"
  "slice_bounds example_memory 104 (104 + 4) \<noteq> Inl SliceBoundsOutOfRange"
  by (simp_all add: slice_bounds_def length_example_memory length_raw)

lemma memory_data_result:
  "x = (r, m\<lparr>log_output := a, memory_data := b\<rparr>) \<Longrightarrow> memory_data (snd x) = b"
  by simp

lemma fst_result:
  "x = (r, m) \<Longrightarrow> fst x = r"
  by simp

text \<open>
  C2. On a hit (the name read from guest memory is \<^verbatim>\<open>message\<close>) get-field encodes
  the value and calls the guest's allocator with exactly the length of the encoding. When
  the allocator answers with an address and the three slice expressions of the hit path
  pass their bounds checks (the buffer of the encoding's length at that address, the 4
  bytes at \<open>rtnPtr\<close>, the 4 bytes at \<open>rtnLen\<close>), the call returns the status OK with a
  nil error, and the module afterwards is the module before with one log line added and
  with exactly this memory: the memory the allocator left, with the encoding copied to the
  allocator's address, then that address stored at \<open>rtnPtr\<close>, then the length stored at
  \<open>rtnLen\<close>, both as 4 little-endian bytes. The number \<open>n\<close> of bytes copied is the
  length as a 32-bit value, which is the whole encoding whenever it is shorter than
  \<open>2 ^ 32\<close> bytes. Every byte outside the three ranges is as the allocator left it.
  The length slot reads back the length; the pointer slot reads back the address when the
  two slots do not overlap; the buffer reads back the encoding when no slot overlaps it.
\<close>

theorem getField_hit:
  fixes m :: "'v wasmModule"
  assumes exported: "memory_exported m"
    and name: "slice (memory_data m) dataPtr (dataPtr + dataLen) = Inr (bytes_of ''message'')"
    and enc: "Marshal js raw = Inr value"
    and alloc: "mallocFunc m (of_nat (length value)) (memory_data m) = (Inr (VInt32 valuePtr), mem)"
    and buf: "slice_bounds mem valuePtr (valuePtr + of_nat (length value)) \<noteq> Inl SliceBoundsOutOfRange"
    and slot1: "slice_bounds mem rtnPtr (rtnPtr + 4) \<noteq> Inl SliceBoundsOutOfRange"
    and slot2: "slice_bounds mem rtnLen (rtnLen + 4) \<noteq> Inl SliceBoundsOutOfRange"
  defines "n \<equiv> unat (of_nat (length value) :: int32)"
  defines "mem3 \<equiv> take (unat valuePtr) mem @ take n value @ drop (unat valuePtr + n) mem"
  defines "mem4 \<equiv> take (unat rtnPtr) mem3 @ le32 valuePtr @ drop (unat rtnPtr + 4) mem3"
  defines "mem5 \<equiv> take (unat rtnLen) mem4 @ le32 (of_nat (length value)) @ drop (unat rtnLen + 4) mem4"
  shows "getField js m [dataPtr, dataLen, rtnPtr, rtnLen]
           = (Return [Status_code StatusOK] None,
              m\<lparr>log_output := log_output m @ [LogGetField (bytes_of ''message'')],
                memory_data := mem5\<rparr>)
       \<and> length mem5 = length mem
       \<and> (length value < 2 ^ 32 \<longrightarrow> n = length value \<and> take n value = value)
       \<and> (\<forall>i. (i < unat valuePtr \<or> unat valuePtr + n \<le> i)
               \<and> (i < unat rtnPtr \<or> unat rtnPtr + 4 \<le> i)
               \<and> (i < unat rtnLen \<or> unat rtnLen + 4 \<le> i) \<longrightarrow> mem5 ! i = mem ! i)
       \<and> little_endian (take 4 (drop (unat rtnLen) mem5)) = (of_nat (length value) :: int32)
       \<and> (unat rtnPtr + 4 \<le> unat rtnLen \<or> unat rtnLen + 4 \<le> unat rtnPtr \<longrightarrow>
             little_endian (take 4 (drop (unat rtnPtr) mem5)) = valuePtr)
       \<and> ((unat rtnPtr + 4 \<le> unat valuePtr \<or> unat valuePtr + n \<le> unat rtnPtr)
             \<and> (unat rtnLen + 4 \<le> unat valuePtr \<or> unat valuePtr + n \<le> unat rtnLen) \<longrightarrow>
             take n (drop (unat valuePtr) mem5) = take n value)"
proof -
  define VP RP RL where "VP = unat valuePtr" and "RP = unat rtnPtr" and "RL = unat rtnLen"
  have nL: "n \<le> length value"
    by (simp add: n_def unat_of_nat)
  have ln: "length (take n value) = n"
    using nL by simp
  have "unat valuePtr + n \<le> length mem"
    using slice_bounds_accepted(2) [OF buf] by (simp only: n_def)
  then have b0: "VP + length (take n value) \<le> length mem"
    by (simp only: ln VP_def)
  have b1: "RP + 4 \<le> length mem"
    using PutUint32_accepted(2) [OF slot1] by (simp only: RP_def)
  have b2: "RL + 4 \<le> length mem"
    using PutUint32_accepted(2) [OF slot2] by (simp only: RL_def)
  have m3: "mem3 = take VP mem @ take n value @ drop (VP + length (take n value)) mem"
    by (simp only: mem3_def VP_def ln)
  have l3: "length mem3 = length mem"
    unfolding m3 using b0 by (rule store_length)
  have b1': "RP + 4 \<le> length mem3"
    using b1 l3 by simp
  have l4: "length mem4 = length mem"
    using store_le32_length [OF b1'] l3 by (simp only: mem4_def RP_def)
  have b2': "RL + 4 \<le> length mem4"
    using b2 l4 by simp
  have l5: "length mem5 = length mem"
    using store_le32_length [OF b2'] l4 by (simp only: mem5_def RL_def)
  have c: "copy_bytes mem valuePtr (valuePtr + of_nat (length value)) value = Inr mem3"
    using copy_bytes_accepted [OF buf] by (simp only: mem3_def n_def)
  have s1: "slice_bounds mem3 rtnPtr (rtnPtr + 4) \<noteq> Inl SliceBoundsOutOfRange"
    using slot1 slice_bounds_length_cong [OF l3] by simp
  have s2: "slice_bounds mem4 rtnLen (rtnLen + 4) \<noteq> Inl SliceBoundsOutOfRange"
    using slot2 slice_bounds_length_cong [OF l4] by simp
  have p1: "PutUint32 mem3 rtnPtr (rtnPtr + 4) valuePtr = Inr mem4"
    using PutUint32_accepted(1) [OF s1] by (simp only: mem4_def)
  have p2: "PutUint32 mem4 rtnLen (rtnLen + 4) (of_nat (length value)) = Inr mem5"
    using PutUint32_accepted(1) [OF s2] by (simp only: mem5_def)
  have g: "getField js m [dataPtr, dataLen, rtnPtr, rtnLen]
           = (Return [Status_code StatusOK] None,
              m\<lparr>log_output := log_output m @ [LogGetField (bytes_of ''message'')],
                memory_data := mem5\<rparr>)"
    using exported name enc alloc c p1 p2
    by (simp add: getField_def malloc_def)
  have full: "length value < 2 ^ 32 \<longrightarrow> n = length value \<and> take n value = value"
  proof
    assume "length value < 2 ^ 32"
    then have "length value < 2 ^ LENGTH(32)" by simp
    then have "unat (of_nat (length value) :: int32) = length value"
      by (intro of_nat_inverse) simp_all
    then show "n = length value \<and> take n value = value"
      by (simp add: n_def)
  qed
  have frame: "\<forall>i. (i < VP \<or> VP + n \<le> i) \<and> (i < RP \<or> RP + 4 \<le> i) \<and> (i < RL \<or> RL + 4 \<le> i)
                 \<longrightarrow> mem5 ! i = mem ! i"
  proof (intro allI impI, elim conjE)
    fix i
    assume v: "i < VP \<or> VP + n \<le> i" and p: "i < RP \<or> RP + 4 \<le> i" and l: "i < RL \<or> RL + 4 \<le> i"
    have "i < VP \<or> VP + length (take n value) \<le> i"
      using v by (simp only: ln)
    then have 3: "mem3 ! i = mem ! i"
      unfolding m3 by (rule store_nth [OF b0])
    have "i < RP \<or> RP + length (le32 valuePtr) \<le> i"
      using p by (simp only: length_le32)
    moreover have "RP + length (le32 valuePtr) \<le> length mem3"
      using b1' by (simp only: length_le32)
    ultimately have "(take RP mem3 @ le32 valuePtr @ drop (RP + length (le32 valuePtr)) mem3) ! i = mem3 ! i"
      by (intro store_nth)
    then have 4: "mem4 ! i = mem3 ! i"
      by (simp only: mem4_def RP_def length_le32)
    have "i < RL \<or> RL + length (le32 (of_nat (length value))) \<le> i"
      using l by (simp only: length_le32)
    moreover have "RL + length (le32 (of_nat (length value))) \<le> length mem4"
      using b2' by (simp only: length_le32)
    ultimately have "(take RL mem4 @ le32 (of_nat (length value))
                       @ drop (RL + length (le32 (of_nat (length value)))) mem4) ! i = mem4 ! i"
      by (intro store_nth)
    then have 5: "mem5 ! i = mem4 ! i"
      by (simp only: mem5_def RL_def length_le32)
    show "mem5 ! i = mem ! i"
      using 3 4 5 by simp
  qed
  have "take 4 (drop RL mem5) = le32 (of_nat (length value))"
    unfolding mem5_def RL_def using b2' [unfolded RL_def] by (rule store_le32_read)
  then have q2: "little_endian (take 4 (drop RL mem5)) = (of_nat (length value) :: int32)"
    by (simp add: little_endian_le32)
  have q1: "RP + 4 \<le> RL \<or> RL + 4 \<le> RP \<longrightarrow> little_endian (take 4 (drop RP mem5)) = valuePtr"
  proof
    assume a: "RP + 4 \<le> RL \<or> RL + 4 \<le> RP"
    have t4: "take 4 (drop RP mem4) = le32 valuePtr"
      unfolding mem4_def RP_def using b1' [unfolded RP_def] by (rule store_le32_read)
    have t5: "take 4 (drop RP mem5) = take 4 (drop RP mem4)"
      unfolding mem5_def RL_def using b2' [unfolded RL_def] a [unfolded RL_def]
      by (rule store_le32_other)
    show "little_endian (take 4 (drop RP mem5)) = valuePtr"
      using t4 t5 by (simp add: little_endian_le32)
  qed
  have v: "(RP + 4 \<le> VP \<or> VP + n \<le> RP) \<and> (RL + 4 \<le> VP \<or> VP + n \<le> RL)
            \<longrightarrow> take n (drop VP mem5) = take n value"
  proof (intro impI, elim conjE)
    assume a1: "RP + 4 \<le> VP \<or> VP + n \<le> RP" and a2: "RL + 4 \<le> VP \<or> VP + n \<le> RL"
    have "take (length (take n value)) (drop VP mem3) = take n value"
      unfolding m3 using b0 by (rule store_read)
    then have r3: "take n (drop VP mem3) = take n value"
      by (simp only: ln)
    have a1': "VP + n \<le> RP \<or> RP + 4 \<le> VP" using a1 by blast
    have a2': "VP + n \<le> RL \<or> RL + 4 \<le> VP" using a2 by blast
    have r4: "take n (drop VP mem4) = take n (drop VP mem3)"
      unfolding mem4_def RP_def using b1' [unfolded RP_def] a1' [unfolded RP_def]
      by (rule store_le32_other)
    have r5: "take n (drop VP mem5) = take n (drop VP mem4)"
      unfolding mem5_def RL_def using b2' [unfolded RL_def] a2' [unfolded RL_def]
      by (rule store_le32_other)
    show "take n (drop VP mem5) = take n value"
      using r3 r4 r5 by simp
  qed
  show ?thesis
    using g l5 full frame q2 q1 v unfolding VP_def RP_def RL_def by (simp only: simp_thms)
qed

theorem getField_hit_witness:
  "memory_exported example_module
   \<and> slice (memory_data example_module) 0 (0 + 7) = Inr (bytes_of ''message'')
   \<and> Marshal plain_json raw = Inr (0x22 # raw @ [0x22])
   \<and> mallocFunc example_module (of_nat (length (0x22 # raw @ [0x22]))) (memory_data example_module)
        = (Inr (VInt32 16), example_memory)
   \<and> slice_bounds example_memory 16 (16 + of_nat (length (0x22 # raw @ [0x22]))) \<noteq> Inl SliceBoundsOutOfRange
   \<and> slice_bounds example_memory 100 (100 + 4) \<noteq> Inl SliceBoundsOutOfRange
   \<and> slice_bounds example_memory 104 (104 + 4) \<noteq> Inl SliceBoundsOutOfRange
   \<and> fst (getField plain_json example_module [0, 7, 100, 104]) = Return [Status_code StatusOK] None
   \<and> length (memory_data (snd (getField plain_json example_module [0, 7, 100, 104]))) = length example_memory
   \<and> take (unat (of_nat (length (0x22 # raw @ [0x22])) :: int32)) (drop (unat (16 :: int32))
        (memory_data (snd (getField plain_json example_module [0, 7, 100, 104]))))
        = take (unat (of_nat (length (0x22 # raw @ [0x22])) :: int32)) (0x22 # raw @ [0x22])
   \<and> take (unat (of_nat (length (0x22 # raw @ [0x22])) :: int32)) (0x22 # raw @ [0x22]) = 0x22 # raw @ [0x22]
   \<and> little_endian (take 4 (drop (unat (100 :: int32))
        (memory_data (snd (getField plain_json example_module [0, 7, 100, 104]))))) = (16 :: int32)
   \<and> little_endian (take 4 (drop (unat (104 :: int32))
        (memory_data (snd (getField plain_json example_module [0, 7, 100, 104])))))
        = (of_nat (length (0x22 # raw @ [0x22])) :: int32)
   \<and> memory_data (snd (getField plain_json example_module [0, 7, 100, 104])) ! 62 = example_memory ! 62
   \<and> fst (getField plain_json example_module [0, 7, 100, 100]) = Return [Status_code StatusOK] None
   \<and> little_endian (take 4 (drop (unat (100 :: int32))
        (memory_data (snd (getField plain_json example_module [0, 7, 100, 100])))))
        = (of_nat (length (0x22 # raw @ [0x22])) :: int32)"
proof -
  let ?V = "0x22 # raw @ [0x22]"
  have h1: "memory_exported example_module"
    by (simp add: example_module_simps)
  have h2: "slice (memory_data example_module) 0 (0 + 7) = Inr (bytes_of ''message'')"
    by (simp add: example_module_simps example_slices)
  have h3: "Marshal plain_json raw = Inr ?V"
    by (simp add: plain_json_def plain_raw)
  have h4: "mallocFunc example_module (of_nat (length ?V)) (memory_data example_module)
        = (Inr (VInt32 16), example_memory)"
    by (simp add: example_module_simps)
  note h5 = example_bounds(1) and h6 = example_bounds(2) and h7 = example_bounds(3)
  note r = getField_hit [OF h1 h2 h3 h4 h5 h6 h7]
  note r' = getField_hit [OF h1 h2 h3 h4 h5 h6 h6]
  note g = r [THEN conjunct1]
  note g' = r' [THEN conjunct1]
  note md = memory_data_result [OF g]
  note md' = memory_data_result [OF g']
  note f1 = fst_result [OF g]
  note f2 = fst_result [OF g']
  note len = r [THEN conjunct2, THEN conjunct1]
  have small: "length ?V < 2 ^ 32"
    by (simp add: length_raw)
  note full = r [THEN conjunct2, THEN conjunct2, THEN conjunct1, THEN mp, OF small, THEN conjunct2]
  have outside: "(62 < unat (16 :: int32) \<or> unat (16 :: int32) + unat (of_nat (length ?V) :: int32) \<le> 62)
               \<and> (62 < unat (100 :: int32) \<or> unat (100 :: int32) + 4 \<le> 62)
               \<and> (62 < unat (104 :: int32) \<or> unat (104 :: int32) + 4 \<le> 62)"
    by (simp add: length_raw)
  note frame = r [THEN conjunct2, THEN conjunct2, THEN conjunct2, THEN conjunct1, THEN spec, THEN mp,
                  OF outside]
  note lenslot = r [THEN conjunct2, THEN conjunct2, THEN conjunct2, THEN conjunct2, THEN conjunct1]
  note lenslot' = r' [THEN conjunct2, THEN conjunct2, THEN conjunct2, THEN conjunct2, THEN conjunct1]
  have a0: "unat (100 :: int32) + 4 \<le> unat (104 :: int32) \<or> unat (104 :: int32) + 4 \<le> unat (100 :: int32)"
    by simp
  note ptrslot = r [THEN conjunct2, THEN conjunct2, THEN conjunct2, THEN conjunct2, THEN conjunct2,
                    THEN conjunct1, THEN mp, OF a0]
  have a1: "(unat (100 :: int32) + 4 \<le> unat (16 :: int32)
              \<or> unat (16 :: int32) + unat (of_nat (length ?V) :: int32) \<le> unat (100 :: int32))
          \<and> (unat (104 :: int32) + 4 \<le> unat (16 :: int32)
              \<or> unat (16 :: int32) + unat (of_nat (length ?V) :: int32) \<le> unat (104 :: int32))"
    by (simp add: length_raw)
  note buffer = r [THEN conjunct2, THEN conjunct2, THEN conjunct2, THEN conjunct2, THEN conjunct2,
                   THEN conjunct2, THEN mp, OF a1]
  show ?thesis
    unfolding md md'
    using h1 h2 h3 h4 h5 h6 h7 f1 len buffer full ptrslot lenslot frame f2 lenslot'
    by (intro conjI) assumption+
qed

section \<open>How failures leave the host functions\<close>

lemma getField_outcomes:
  "(\<exists>p. fst (getField js m args) = Panic p)
   \<or> (\<exists>e. fst (getField js m args) = Return [] (Some e))
   \<or> fst (getField js m args) = Return [Status_code StatusOK] None"
  unfolding getField_def malloc_def
  by (simp split: list.split sum.split prod.split result.split option.split native_value.split add: Let_def)

lemma putField_outcomes:
  "(\<exists>p. fst (putField js m args) = Panic p)
   \<or> (\<exists>e. fst (putField js m args) = Return [] (Some e))
   \<or> (\<exists>e. fst (putField js m args) = Return [Status_code StatusInternalFailure] (Some e))
   \<or> (\<exists>e. fst (putField js m args) = Return [Status_code StatusInvalidArgument] (Some e))
   \<or> fst (putField js m args) = Return [Status_code StatusOK] None"
  unfolding putField_def
  by (simp split: list.split sum.split add: Let_def)

lemma log_outcomes:
  "(\<exists>p. fst (log m args) = Panic p)
   \<or> (\<exists>e. fst (log m args) = Return [] (Some e))
   \<or> fst (log m args) = Return [Status_code StatusOK] None"
  unfolding log_def
  by (simp split: list.split sum.split)

lemma getCurrentTime_outcomes:
  "(\<exists>p. fst (getCurrentTime now m args) = Panic p)
   \<or> (\<exists>e. fst (getCurrentTime now m args) = Return [] (Some e))
   \<or> fst (getCurrentTime now m args) = Return [Status_code StatusOK] None"
  unfolding getCurrentTime_def
  by (simp split: list.split sum.split)

lemma elastic_names:
  assumes "elastic js now name = Some f"
  shows "(name = ''elastic_get_field'' \<and> f = getField js)
       \<or> (name = ''elastic_put_field'' \<and> f = putField js)
       \<or> (name = ''elastic_log'' \<and> f = log)
       \<or> (name = ''elastic_get_current_time_nanoseconds'' \<and> f = getCurrentTime now)"
  using assms by (auto simp: elastic_def split: if_splits)

lemma copy_bytes_stage:
  "copy_bytes b p (p + of_nat (length src)) src = Inl SliceBoundsOutOfRange
   \<or> (\<exists>b'. copy_bytes b p (p + of_nat (length src)) src = Inr b' \<and> length b' = length b)"
proof (cases "slice_bounds b p (p + of_nat (length src)) = Inl SliceBoundsOutOfRange")
  case True
  then show ?thesis by (simp add: slice_out_of_range)
next
  case False
  define k where "k = unat (of_nat (length src) :: int32)"
  have "k \<le> length src"
    by (simp add: k_def unat_of_nat)
  then have l: "length (take k src) = k" by simp
  have "unat p + k \<le> length b"
    using slice_bounds_accepted(2) [OF False] by (simp only: k_def)
  then have "unat p + length (take k src) \<le> length b"
    by (simp only: l)
  then have "length (take (unat p) b @ take k src @ drop (unat p + length (take k src)) b) = length b"
    by (rule store_length)
  then have "length (take (unat p) b @ take k src @ drop (unat p + k) b) = length b"
    by (simp only: l)
  then show ?thesis
    using copy_bytes_accepted [OF False] by (simp only: k_def) blast
qed

lemma PutUint32_stage:
  "PutUint32 b p (p + 4) v = Inl SliceBoundsOutOfRange
   \<or> (\<exists>b'. PutUint32 b p (p + 4) v = Inr b' \<and> length b' = length b)"
proof (cases "slice_bounds b p (p + 4) = Inl SliceBoundsOutOfRange")
  case True
  then show ?thesis by (simp add: slice_out_of_range)
next
  case False
  show ?thesis
    using PutUint32_accepted(1) [OF False, of v] store_le32_length [OF PutUint32_accepted(2) [OF False], of v]
    by blast
qed

lemma out_slot_panics:
  assumes exported: "memory_exported m"
    and name: "slice (memory_data m) dataPtr (dataPtr + dataLen) = Inr (bytes_of ''message'')"
    and enc: "Marshal js raw = Inr value"
    and alloc: "mallocFunc m (of_nat (length value)) (memory_data m) = (Inr (VInt32 valuePtr), mem)"
    and bad: "(2 ^ 32 \<le> unat valuePtr + unat (of_nat (length value) :: int32)
                \<or> length mem < unat valuePtr + unat (of_nat (length value) :: int32))
            \<or> (2 ^ 32 \<le> unat rtnPtr + unat (4 :: int32) \<or> length mem < unat rtnPtr + unat (4 :: int32))
            \<or> (2 ^ 32 \<le> unat rtnLen + unat (4 :: int32) \<or> length mem < unat rtnLen + unat (4 :: int32))"
  shows "fst (getField js m [dataPtr, dataLen, rtnPtr, rtnLen]) = Panic SliceBoundsOutOfRange"
proof -
  note run = exported name enc alloc
  from copy_bytes_stage [of mem valuePtr "value"] show ?thesis
  proof (elim disjE exE conjE)
    assume "copy_bytes mem valuePtr (valuePtr + of_nat (length value)) value = Inl SliceBoundsOutOfRange"
    then show ?thesis
      using run by (simp add: getField_def malloc_def)
  next
    fix mem3
    assume c3: "copy_bytes mem valuePtr (valuePtr + of_nat (length value)) value = Inr mem3"
      and l3: "length mem3 = length mem"
    from PutUint32_stage [of mem3 rtnPtr valuePtr] show ?thesis
    proof (elim disjE exE conjE)
      assume "PutUint32 mem3 rtnPtr (rtnPtr + 4) valuePtr = Inl SliceBoundsOutOfRange"
      then show ?thesis
        using run c3 by (simp add: getField_def malloc_def)
    next
      fix mem4
      assume p4: "PutUint32 mem3 rtnPtr (rtnPtr + 4) valuePtr = Inr mem4"
        and l4: "length mem4 = length mem3"
      from PutUint32_stage [of mem4 rtnLen "of_nat (length value)"] show ?thesis
      proof (elim disjE exE conjE)
        assume "PutUint32 mem4 rtnLen (rtnLen + 4) (of_nat (length value)) = Inl SliceBoundsOutOfRange"
        then show ?thesis
          using run c3 p4 by (simp add: getField_def malloc_def)
      next
        fix mem5
        assume p5: "PutUint32 mem4 rtnLen (rtnLen + 4) (of_nat (length value)) = Inr mem5"
        have 1: "\<not> (2 ^ 32 \<le> unat valuePtr + unat (of_nat (length value) :: int32)
                \<or> length mem < unat valuePtr + unat (of_nat (length value) :: int32))"
        proof
          assume "2 ^ 32 \<le> unat valuePtr + unat (of_nat (length value) :: int32)
                \<or> length mem < unat valuePtr + unat (of_nat (length value) :: int32)"
          then have "copy_bytes mem valuePtr (valuePtr + of_nat (length value)) value = Inl SliceBoundsOutOfRange"
            by (rule slice_out_of_range(2) [OF slice_bounds_out_of_range])
          with c3 show False by simp
        qed
        have 2: "\<not> (2 ^ 32 \<le> unat rtnPtr + unat (4 :: int32) \<or> length mem < unat rtnPtr + unat (4 :: int32))"
        proof
          assume "2 ^ 32 \<le> unat rtnPtr + unat (4 :: int32) \<or> length mem < unat rtnPtr + unat (4 :: int32)"
          then have "2 ^ 32 \<le> unat rtnPtr + unat (4 :: int32) \<or> length mem3 < unat rtnPtr + unat (4 :: int32)"
            by (simp only: l3)
          then have "PutUint32 mem3 rtnPtr (rtnPtr + 4) valuePtr = Inl SliceBoundsOutOfRange"
            by (rule slice_out_of_range(3) [OF slice_bounds_out_of_range])
          with p4 show False by simp
        qed
        have 3: "\<not> (2 ^ 32 \<le> unat rtnLen + unat (4 :: int32) \<or> length mem < unat rtnLen + unat (4 :: int32))"
        proof
          assume "2 ^ 32 \<le> unat rtnLen + unat (4 :: int32) \<or> length mem < unat rtnLen + unat (4 :: int32)"
          then have "2 ^ 32 \<le> unat rtnLen + unat (4 :: int32) \<or> length mem4 < unat rtnLen + unat (4 :: int32)"
            by (simp only: l3 l4)
          then have "PutUint32 mem4 rtnLen (rtnLen + 4) (of_nat (length value)) = Inl SliceBoundsOutOfRange"
            by (rule slice_out_of_range(3) [OF slice_bounds_out_of_range])
          with p5 show False by simp
        qed
        from bad 1 2 3 show ?thesis by blast
      qed
    qed
  qed
qed

lemma slice_panic: "slice b lo hi = Inl e \<Longrightarrow> e = SliceBoundsOutOfRange"
  by (auto simp: slice_def slice_bounds_def split: if_splits)

lemma copy_bytes_panic: "copy_bytes b lo hi src = Inl e \<Longrightarrow> e = SliceBoundsOutOfRange"
  by (auto simp: copy_bytes_def slice_bounds_def Let_def split: if_splits)

lemma PutUint32_panic:
  assumes "PutUint32 b p (p + 4) v = Inl e"
  shows "e = SliceBoundsOutOfRange"
proof (cases "slice_bounds b p (p + 4) = Inl SliceBoundsOutOfRange")
  case True
  then show ?thesis using assms by (simp add: PutUint32_def)
next
  case False
  then show ?thesis using PutUint32_accepted(1) [OF False, of v] assms by simp
qed

lemma PutUint64_panic:
  assumes "PutUint64 b p (p + 8) v = Inl e"
  shows "e = SliceBoundsOutOfRange"
proof (cases "slice_bounds b p (p + 8) = Inl SliceBoundsOutOfRange")
  case True
  then show ?thesis using assms by (simp add: PutUint64_def)
next
  case False
  then show ?thesis using PutUint64_accepted(1) [OF False, of v] assms by simp
qed

lemma getField_panics:
  "fst (getField js m args) = Panic p \<Longrightarrow> p = SliceBoundsOutOfRange \<or> p = InterfaceConversion"
  unfolding getField_def malloc_def
  by (auto split: list.splits sum.splits prod.splits result.splits option.splits native_value.splits if_splits
        simp: Let_def dest: slice_panic copy_bytes_panic PutUint32_panic)

lemma putField_panics:
  "fst (putField js m args) = Panic p \<Longrightarrow> p = SliceBoundsOutOfRange"
  unfolding putField_def
  by (auto split: list.splits sum.splits if_splits simp: Let_def dest: slice_panic)

lemma log_panics:
  "fst (log m args) = Panic p \<Longrightarrow> p = SliceBoundsOutOfRange"
  unfolding log_def
  by (auto split: list.splits sum.splits if_splits dest: slice_panic)

lemma getCurrentTime_panics:
  "fst (getCurrentTime now m args) = Panic p \<Longrightarrow> p = SliceBoundsOutOfRange"
  unfolding getCurrentTime_def
  by (auto split: list.splits sum.splits if_splits dest: PutUint64_panic)

lemma getField_statuses:
  "fst (getField js m args) = Return vs e \<Longrightarrow>
     (vs = [] \<and> e \<noteq> None) \<or> (vs = [Status_code StatusOK] \<and> e = None)"
  unfolding getField_def malloc_def
  by (auto split: list.splits sum.splits prod.splits result.splits option.splits native_value.splits if_splits
        simp: Let_def)

lemma log_statuses:
  "fst (log m args) = Return vs e \<Longrightarrow>
     (vs = [] \<and> e \<noteq> None) \<or> (vs = [Status_code StatusOK] \<and> e = None)"
  unfolding log_def
  by (auto split: list.splits sum.splits if_splits)

lemma getCurrentTime_statuses:
  "fst (getCurrentTime now m args) = Return vs e \<Longrightarrow>
     (vs = [] \<and> e \<noteq> None) \<or> (vs = [Status_code StatusOK] \<and> e = None)"
  unfolding getCurrentTime_def
  by (auto split: list.splits sum.splits if_splits)

lemma putField_statuses:
  "fst (putField js m args) = Return vs e \<Longrightarrow>
     (vs = [] \<and> e \<noteq> None) \<or> (vs = [Status_code StatusOK] \<and> e = None)
     \<or> (vs = [Status_code StatusInternalFailure] \<and> e \<noteq> None)
     \<or> (vs = [Status_code StatusInvalidArgument] \<and> e \<noteq> None)"
  unfolding putField_def
  by (auto split: list.splits sum.splits if_splits simp: Let_def)

lemma putField_InternalFailure_iff:
  "fst (putField js m args) = Return [Status_code StatusInternalFailure] e
     \<longleftrightarrow> length args = 4 \<and> \<not> memory_exported m
         \<and> e = Some (Wrapped ''failed to get the `memory` memory'' (ExportNotFound ''memory''))"
  unfolding putField_def
  by (auto split: list.splits sum.splits if_splits simp: Let_def)

lemma putField_InvalidArgument_iff:
  "fst (putField js m args) = Return [Status_code StatusInvalidArgument] e
     \<longleftrightarrow> (\<exists>keyPtr keyLen valuePtr valueLen key val err.
            args = [keyPtr, keyLen, valuePtr, valueLen] \<and> memory_exported m
            \<and> slice (memory_data m) keyPtr (keyPtr + keyLen) = Inr key
            \<and> slice (memory_data m) valuePtr (valuePtr + valueLen) = Inr val
            \<and> Unmarshal js val = Inl err
            \<and> e = Some (Wrapped ''failed to decode value'' err))"
  unfolding putField_def
  by (auto split: list.splits sum.splits if_splits simp: Let_def)

lemma missing_memory:
  assumes "\<not> memory_exported m"
  shows "length args = 4 \<longrightarrow> fst (getField js m args)
           = Return [] (Some (Wrapped ''failed to get the `memory` memory'' (ExportNotFound ''memory'')))"
    and "length args = 3 \<longrightarrow> fst (log m args)
           = Return [] (Some (Wrapped ''failed to get the `memory` memory'' (ExportNotFound ''memory'')))"
    and "length args = 1 \<longrightarrow> fst (getCurrentTime now m args)
           = Return [] (Some (Wrapped ''failed to get the `memory` memory'' (ExportNotFound ''memory'')))"
  using assms
  by (auto simp: getField_def log_def getCurrentTime_def split: list.splits)

lemma bounds_violation_panics:
  assumes "memory_exported m"
    and "2 ^ 32 \<le> unat p + unat n \<or> length (memory_data m) < unat p + unat n"
  shows "fst (getField js m [p, n, rp, rl]) = Panic SliceBoundsOutOfRange"
    and "fst (putField js m [p, n, vp, vl]) = Panic SliceBoundsOutOfRange"
    and "fst (putField js m [kp, kl, p, n]) = Panic SliceBoundsOutOfRange"
    and "fst (log m [lvl, p, n]) = Panic SliceBoundsOutOfRange"
    and "n = 8 \<longrightarrow> fst (getCurrentTime now m [p]) = Panic SliceBoundsOutOfRange"
proof -
  have b: "slice_bounds (memory_data m) p (p + n) = Inl SliceBoundsOutOfRange"
    using assms(2) by (rule slice_bounds_out_of_range)
  note f = slice_out_of_range [OF b]
  have key: "slice (memory_data m) kp (kp + kl) = Inl SliceBoundsOutOfRange
             \<or> (\<exists>k. slice (memory_data m) kp (kp + kl) = Inr k)"
    by (auto simp: slice_def slice_bounds_def)
  show "fst (getField js m [p, n, rp, rl]) = Panic SliceBoundsOutOfRange"
    using assms(1) by (simp add: getField_def f)
  show "fst (putField js m [p, n, vp, vl]) = Panic SliceBoundsOutOfRange"
    using assms(1) by (simp add: putField_def f)
  show "fst (putField js m [kp, kl, p, n]) = Panic SliceBoundsOutOfRange"
    using assms(1) key by (auto simp: putField_def f)
  show "fst (log m [lvl, p, n]) = Panic SliceBoundsOutOfRange"
    using assms(1) by (simp add: log_def f)
  show "n = 8 \<longrightarrow> fst (getCurrentTime now m [p]) = Panic SliceBoundsOutOfRange"
    using assms(1) f(4) [of now] by (auto simp: getCurrentTime_def)
qed

lemma failing_module_simps:
  "memory_exported failing_module"
  "memory_data failing_module = example_memory"
  "mallocFunc failing_module sz mem = (Inl (GuestTrap 0), mem)"
  "log_output failing_module = []"
  by (simp_all add: failing_module_def example_module_def)

text \<open>
  C5, as the code has it. A call of a registered host function ends in one of three ways:
  it panics, it returns a non-nil Go error, or it returns the status OK with a nil error.
  No failure is reported in band.
  \<^item> A panic is the run-time error ``slice bounds out of range'', or in get-field the
    failed type assertion on the allocator's answer; a pair that overflows 32 bits or
    passes the end of the memory makes each host function panic with the first.
  \<^item> A returned status other than OK comes only from put-field and only beside a non-nil
    error: InternalFailure exactly when put-field has its four arguments and the memory
    export is missing, InvalidArgument exactly when the key and the value were read and
    the value failed to decode.
  \<^item> A wrong argument count returns an error and no status value; so does a missing
    memory export in get-field, log and get-current-time.
\<close>

theorem failures_reported_out_of_band:
  assumes "elastic js now name = Some f"
  shows "((\<exists>p. fst (f m args) = Panic p)
          \<or> (\<exists>vs e. fst (f m args) = Return vs (Some e))
          \<or> fst (f m args) = Return [Status_code StatusOK] None)
       \<and> (\<forall>p. fst (f m args) = Panic p \<longrightarrow>
              p = SliceBoundsOutOfRange \<or> (name = ''elastic_get_field'' \<and> p = InterfaceConversion))
       \<and> (\<forall>vs e. fst (f m args) = Return vs e \<longrightarrow>
              (vs = [] \<and> e \<noteq> None) \<or> (vs = [Status_code StatusOK] \<and> e = None)
              \<or> (name = ''elastic_put_field'' \<and> e \<noteq> None
                   \<and> (vs = [Status_code StatusInternalFailure] \<or> vs = [Status_code StatusInvalidArgument])))
       \<and> (\<forall>e. fst (putField js m args) = Return [Status_code StatusInternalFailure] e
              \<longleftrightarrow> length args = 4 \<and> \<not> memory_exported m
                  \<and> e = Some (Wrapped ''failed to get the `memory` memory'' (ExportNotFound ''memory'')))
       \<and> (\<forall>e. fst (putField js m args) = Return [Status_code StatusInvalidArgument] e
              \<longleftrightarrow> (\<exists>keyPtr keyLen valuePtr valueLen key val err.
                     args = [keyPtr, keyLen, valuePtr, valueLen] \<and> memory_exported m
                     \<and> slice (memory_data m) keyPtr (keyPtr + keyLen) = Inr key
                     \<and> slice (memory_data m) valuePtr (valuePtr + valueLen) = Inr val
                     \<and> Unmarshal js val = Inl err
                     \<and> e = Some (Wrapped ''failed to decode value'' err)))
       \<and> (length args \<noteq> 4 \<longrightarrow>
            fst (getField js m args) = Return [] (Some (RequiresArguments ''get_field'' 4 (length args)))
          \<and> fst (putField js m args) = Return [] (Some (RequiresArguments ''put_field'' 4 (length args))))
       \<and> (length args \<noteq> 3 \<longrightarrow>
            fst (log m args) = Return [] (Some (RequiresArguments ''log'' 3 (length args))))
       \<and> (length args \<noteq> 1 \<longrightarrow>
            fst (getCurrentTime now m args)
              = Return [] (Some (RequiresArguments ''elastic_get_current_time_nanoseconds'' 1 (length args))))
       \<and> (\<not> memory_exported m \<longrightarrow>
            (length args = 4 \<longrightarrow> fst (getField js m args)
               = Return [] (Some (Wrapped ''failed to get the `memory` memory'' (ExportNotFound ''memory''))))
          \<and> (length args = 3 \<longrightarrow> fst (log m args)
               = Return [] (Some (Wrapped ''failed to get the `memory` memory'' (ExportNotFound ''memory''))))
          \<and> (length args = 1 \<longrightarrow> fst (getCurrentTime now m args)
               = Return [] (Some (Wrapped ''failed to get the `memory` memory'' (ExportNotFound ''memory'')))))
       \<and> (memory_exported m
            \<and> (2 ^ 32 \<le> unat p + unat n \<or> length (memory_data m) < unat p + unat n) \<longrightarrow>
            fst (getField js m [p, n, rp, rl]) = Panic SliceBoundsOutOfRange
          \<and> fst (putField js m [p, n, vp, vl]) = Panic SliceBoundsOutOfRange
          \<and> fst (putField js m [kp, kl, p, n]) = Panic SliceBoundsOutOfRange
          \<and> fst (log m [lvl, p, n]) = Panic SliceBoundsOutOfRange
          \<and> (n = 8 \<longrightarrow> fst (getCurrentTime now m [p]) = Panic SliceBoundsOutOfRange))"
proof -
  note nm = elastic_names [OF assms]
  have 1: "(\<exists>p. fst (f m args) = Panic p)
          \<or> (\<exists>vs e. fst (f m args) = Return vs (Some e))
          \<or> fst (f m args) = Return [Status_code StatusOK] None"
    using nm getField_outcomes [of js m args] putField_outcomes [of js m args]
      log_outcomes [of m args] getCurrentTime_outcomes [of now m args]
    by blast
  have 2: "\<forall>p. fst (f m args) = Panic p \<longrightarrow>
              p = SliceBoundsOutOfRange \<or> (name = ''elastic_get_field'' \<and> p = InterfaceConversion)"
    using nm getField_panics [of js m args] putField_panics [of js m args]
      log_panics [of m args] getCurrentTime_panics [of now m args]
    by blast
  have 3: "\<forall>vs e. fst (f m args) = Return vs e \<longrightarrow>
              (vs = [] \<and> e \<noteq> None) \<or> (vs = [Status_code StatusOK] \<and> e = None)
              \<or> (name = ''elastic_put_field'' \<and> e \<noteq> None
                   \<and> (vs = [Status_code StatusInternalFailure] \<or> vs = [Status_code StatusInvalidArgument]))"
    using nm getField_statuses [of js m args] putField_statuses [of js m args]
      log_statuses [of m args] getCurrentTime_statuses [of now m args]
    by blast
  have 4: "\<forall>e. fst (putField js m args) = Return [Status_code StatusInternalFailure] e
              \<longleftrightarrow> length args = 4 \<and> \<not> memory_exported m
                  \<and> e = Some (Wrapped ''failed to get the `memory` memory'' (ExportNotFound ''memory''))"
    by (intro allI) (rule putField_InternalFailure_iff)
  have 5: "\<forall>e. fst (putField js m args) = Return [Status_code StatusInvalidArgument] e
              \<longleftrightarrow> (\<exists>keyPtr keyLen valuePtr valueLen key val err.
                     args = [keyPtr, keyLen, valuePtr, valueLen] \<and> memory_exported m
                     \<and> slice (memory_data m) keyPtr (keyPtr + keyLen) = Inr key
                     \<and> slice (memory_data m) valuePtr (valuePtr + valueLen) = Inr val
                     \<and> Unmarshal js val = Inl err
                     \<and> e = Some (Wrapped ''failed to decode value'' err))"
    by (intro allI) (rule putField_InvalidArgument_iff)
  have 6: "length args \<noteq> 4 \<longrightarrow>
            fst (getField js m args) = Return [] (Some (RequiresArguments ''get_field'' 4 (length args)))
          \<and> fst (putField js m args) = Return [] (Some (RequiresArguments ''put_field'' 4 (length args)))"
    by (auto simp: getField_def putField_def split: list.split)
  have 7: "length args \<noteq> 3 \<longrightarrow>
            fst (log m args) = Return [] (Some (RequiresArguments ''log'' 3 (length args)))"
    by (auto simp: log_def split: list.split)
  have 8: "length args \<noteq> 1 \<longrightarrow>
            fst (getCurrentTime now m args)
              = Return [] (Some (RequiresArguments ''elastic_get_current_time_nanoseconds'' 1 (length args)))"
    by (auto simp: getCurrentTime_def split: list.split)
  have 9: "\<not> memory_exported m \<longrightarrow>
            (length args = 4 \<longrightarrow> fst (getField js m args)
               = Return [] (Some (Wrapped ''failed to get the `memory` memory'' (ExportNotFound ''memory''))))
          \<and> (length args = 3 \<longrightarrow> fst (log m args)
               = Return [] (Some (Wrapped ''failed to get the `memory` memory'' (ExportNotFound ''memory''))))
          \<and> (length args = 1 \<longrightarrow> fst (getCurrentTime now m args)
               = Return [] (Some (Wrapped ''failed to get the `memory` memory'' (ExportNotFound ''memory''))))"
  proof
    assume e: "\<not> memory_exported m"
    show "(length args = 4 \<longrightarrow> fst (getField js m args)
               = Return [] (Some (Wrapped ''failed to get the `memory` memory'' (ExportNotFound ''memory''))))
          \<and> (length args = 3 \<longrightarrow> fst (log m args)
               = Return [] (Some (Wrapped ''failed to get the `memory` memory'' (ExportNotFound ''memory''))))
          \<and> (length args = 1 \<longrightarrow> fst (getCurrentTime now m args)
               = Return [] (Some (Wrapped ''failed to get the `memory` memory'' (ExportNotFound ''memory''))))"
      by (intro conjI) (rule missing_memory [OF e])+
  qed
  have 10: "memory_exported m
            \<and> (2 ^ 32 \<le> unat p + unat n \<or> length (memory_data m) < unat p + unat n) \<longrightarrow>
            fst (getField js m [p, n, rp, rl]) = Panic SliceBoundsOutOfRange
          \<and> fst (putField js m [p, n, vp, vl]) = Panic SliceBoundsOutOfRange
          \<and> fst (putField js m [kp, kl, p, n]) = Panic SliceBoundsOutOfRange
          \<and> fst (log m [lvl, p, n]) = Panic SliceBoundsOutOfRange
          \<and> (n = 8 \<longrightarrow> fst (getCurrentTime now m [p]) = Panic SliceBoundsOutOfRange)"
  proof (intro impI, elim conjE)
    assume e: "memory_exported m"
      and r: "2 ^ 32 \<le> unat p + unat n \<or> length (memory_data m) < unat p + unat n"
    show "fst (getField js m [p, n, rp, rl]) = Panic SliceBoundsOutOfRange
          \<and> fst (putField js m [p, n, vp, vl]) = Panic SliceBoundsOutOfRange
          \<and> fst (putField js m [kp, kl, p, n]) = Panic SliceBoundsOutOfRange
          \<and> fst (log m [lvl, p, n]) = Panic SliceBoundsOutOfRange
          \<and> (n = 8 \<longrightarrow> fst (getCurrentTime now m [p]) = Panic SliceBoundsOutOfRange)"
      by (intro conjI) (rule bounds_violation_panics [OF e r])+
  qed
  show ?thesis
    using 1 2 3 4 5 6 7 8 9 10 by (intro conjI) assumption+
qed

theorem failures_reported_out_of_band_witness:
  "elastic plain_json 0 ''elastic_log'' = Some log
   \<and> elastic plain_json 0 ''elastic_put_field'' = Some (putField plain_json)
   \<and> memory_exported example_module
   \<and> (2 ^ 32 \<le> unat (200 :: int32) + unat (1 :: int32)
        \<or> length (memory_data example_module) < unat (200 :: int32) + unat (1 :: int32))
   \<and> fst (log example_module [3, 200, 1]) = Panic SliceBoundsOutOfRange
   \<and> fst (putField plain_json example_module [1, 3, 0, 7])
        = Return [Status_code StatusInvalidArgument]
            (Some (Wrapped ''failed to decode value'' (CodecError 0)))
   \<and> \<not> memory_exported (example_module\<lparr>memory_exported := False\<rparr>)
   \<and> fst (putField plain_json (example_module\<lparr>memory_exported := False\<rparr>) [1, 3, 0, 7])
        = Return [Status_code StatusInternalFailure]
            (Some (Wrapped ''failed to get the `memory` memory'' (ExportNotFound ''memory'')))
   \<and> fst (getField plain_json (example_module\<lparr>memory_exported := False\<rparr>) [1, 3, 0, 7])
        = Return [] (Some (Wrapped ''failed to get the `memory` memory'' (ExportNotFound ''memory'')))
   \<and> length [3, 200 :: int32] \<noteq> 4
   \<and> fst (getField plain_json example_module [3, 200])
        = Return [] (Some (RequiresArguments ''get_field'' 4 (length [3, 200 :: int32])))
   \<and> fst (putField plain_json example_module [3, 200])
        = Return [] (Some (RequiresArguments ''put_field'' 4 (length [3, 200 :: int32])))
   \<and> length [3, 200 :: int32] \<noteq> 3
   \<and> fst (log example_module [3, 200])
        = Return [] (Some (RequiresArguments ''log'' 3 (length [3, 200 :: int32])))
   \<and> length [3, 200 :: int32] \<noteq> 1
   \<and> fst (getCurrentTime 0 example_module [3, 200])
        = Return [] (Some (RequiresArguments ''elastic_get_current_time_nanoseconds'' 1
             (length [3, 200 :: int32])))"
proof -
  let ?off = "example_module\<lparr>memory_exported := False\<rparr>"
  have h: "elastic plain_json 0 ''elastic_log'' = Some log"
    by (simp add: elastic_def)
  have hp: "elastic plain_json 0 ''elastic_put_field'' = Some (putField plain_json)"
    by (simp add: elastic_def)
  have e: "memory_exported example_module"
    by (simp add: example_module_simps)
  have r: "2 ^ 32 \<le> unat (200 :: int32) + unat (1 :: int32)
        \<or> length (memory_data example_module) < unat (200 :: int32) + unat (1 :: int32)"
    by (simp add: example_module_simps length_example_memory)
  have er: "memory_exported example_module
            \<and> (2 ^ 32 \<le> unat (200 :: int32) + unat (1 :: int32)
                \<or> length (memory_data example_module) < unat (200 :: int32) + unat (1 :: int32))"
    using e r by (rule conjI)
  note a = failures_reported_out_of_band [OF h, where m = example_module and p = 200 and n = 1 and lvl = 3,
      THEN conjunct2, THEN conjunct2, THEN conjunct2, THEN conjunct2, THEN conjunct2,
      THEN conjunct2, THEN conjunct2, THEN conjunct2, THEN conjunct2, THEN mp, OF er,
      THEN conjunct2, THEN conjunct2, THEN conjunct2, THEN conjunct1]
  have dec: "\<exists>keyPtr keyLen valuePtr valueLen key val err.
               [1, 3, 0, 7] = [keyPtr, keyLen, valuePtr, valueLen] \<and> memory_exported example_module
               \<and> slice (memory_data example_module) keyPtr (keyPtr + keyLen) = Inr key
               \<and> slice (memory_data example_module) valuePtr (valuePtr + valueLen) = Inr val
               \<and> Unmarshal plain_json val = Inl err
               \<and> Some (Wrapped ''failed to decode value'' (CodecError 0))
                    = Some (Wrapped ''failed to decode value'' err)"
  proof (intro exI conjI)
    show "[1, 3, 0, 7 :: int32] = [1, 3, 0, 7]" by (rule refl)
    show "memory_exported example_module" by (rule e)
    show "slice (memory_data example_module) 1 (1 + 3) = Inr (bytes_of ''ess'')"
      by (simp add: example_module_simps example_slices)
    show "slice (memory_data example_module) 0 (0 + 7) = Inr (bytes_of ''message'')"
      by (simp add: example_module_simps example_slices)
    show "Unmarshal plain_json (bytes_of ''message'') = Inl (CodecError 0)"
      by (simp add: plain_json_def bytes_of_def)
    show "Some (Wrapped ''failed to decode value'' (CodecError 0))
            = Some (Wrapped ''failed to decode value'' (CodecError 0))" by (rule refl)
  qed
  note b = failures_reported_out_of_band [OF hp, where m = example_module and args = "[1, 3, 0, 7]",
      THEN conjunct2, THEN conjunct2, THEN conjunct2, THEN conjunct2, THEN conjunct1,
      THEN spec, THEN iffD2, OF dec]
  have off: "\<not> memory_exported ?off"
    by simp
  have offc: "length [1, 3, 0, 7 :: int32] = 4 \<and> \<not> memory_exported ?off
              \<and> Some (Wrapped ''failed to get the `memory` memory'' (ExportNotFound ''memory''))
                  = Some (Wrapped ''failed to get the `memory` memory'' (ExportNotFound ''memory''))"
    by simp
  note c = failures_reported_out_of_band [OF hp, where m = ?off and args = "[1, 3, 0, 7]",
      THEN conjunct2, THEN conjunct2, THEN conjunct2, THEN conjunct1,
      THEN spec, THEN iffD2, OF offc]
  have l4: "length [1, 3, 0, 7 :: int32] = 4"
    by simp
  note d = failures_reported_out_of_band [OF hp, where m = ?off and args = "[1, 3, 0, 7]",
      THEN conjunct2, THEN conjunct2, THEN conjunct2, THEN conjunct2, THEN conjunct2,
      THEN conjunct2, THEN conjunct2, THEN conjunct2, THEN conjunct1, THEN mp, OF off,
      THEN conjunct1, THEN mp, OF l4]
  have n4: "length [3, 200 :: int32] \<noteq> 4" and n3: "length [3, 200 :: int32] \<noteq> 3"
    and n1: "length [3, 200 :: int32] \<noteq> 1"
    by simp_all
  note t = failures_reported_out_of_band [OF h, where m = example_module and args = "[3, 200]"]
  note a4 = t [THEN conjunct2, THEN conjunct2, THEN conjunct2, THEN conjunct2, THEN conjunct2,
      THEN conjunct1, THEN mp, OF n4]
  note a3 = t [THEN conjunct2, THEN conjunct2, THEN conjunct2, THEN conjunct2, THEN conjunct2,
      THEN conjunct2, THEN conjunct1, THEN mp, OF n3]
  note a1 = t [THEN conjunct2, THEN conjunct2, THEN conjunct2, THEN conjunct2, THEN conjunct2,
      THEN conjunct2, THEN conjunct2, THEN conjunct1, THEN mp, OF n1]
  show ?thesis
    using h hp e r a b off c d n4 a4 [THEN conjunct1] a4 [THEN conjunct2] n3 a3 n1 a1
    by (intro conjI) assumption+
qed

text \<open>
  Against C5 as stated: a log call whose message range passes the end of the memory and a
  put-field call whose value range passes it both panic; neither reports a status.
\<close>

theorem failures_reported_out_of_band_counterexample:
  "fst (log example_module [LogLevel_code LogLevelError, 200, 1]) = Panic SliceBoundsOutOfRange
   \<and> fst (putField plain_json example_module [1, 3, 7, 200]) = Panic SliceBoundsOutOfRange"
proof -
  have e: "memory_exported example_module"
    by (simp add: example_module_simps)
  have r: "2 ^ 32 \<le> unat (200 :: int32) + unat (1 :: int32)
        \<or> length (memory_data example_module) < unat (200 :: int32) + unat (1 :: int32)"
    by (simp add: example_module_simps length_example_memory)
  have r': "2 ^ 32 \<le> unat (7 :: int32) + unat (200 :: int32)
        \<or> length (memory_data example_module) < unat (7 :: int32) + unat (200 :: int32)"
    by (simp add: example_module_simps length_example_memory)
  show ?thesis
    using bounds_violation_panics(4) [OF e r, of "LogLevel_code LogLevelError"]
      bounds_violation_panics(3) [OF e r', of plain_json 1 3]
    by (intro conjI) assumption+
qed

text \<open>
  C7, as the code has it. On a present field, when the guest's allocator fails, get-field
  returns the allocator's error and no status value. When the allocator answers with
  something that is not an \<^verbatim>\<open>int32\<close> get-field panics on the type assertion; when it
  answers with an address and the buffer at that address, the 4 bytes at \<open>rtnPtr\<close> or
  the 4 bytes at \<open>rtnLen\<close> overflow 32 bits or pass the end of the memory, get-field
  panics with ``slice bounds out of range''. It never returns the status InternalFailure.
\<close>

theorem getField_allocator_failure:
  assumes "memory_exported m"
    and "slice (memory_data m) dataPtr (dataPtr + dataLen) = Inr (bytes_of ''message'')"
    and "Marshal js raw = Inr value"
  shows "(mallocFunc m (of_nat (length value)) (memory_data m) = (Inl err, mem) \<longrightarrow>
            getField js m [dataPtr, dataLen, rtnPtr, rtnLen]
              = (Return [] (Some err),
                 m\<lparr>log_output := log_output m @ [LogGetField (bytes_of ''message'')],
                   memory_data := mem\<rparr>))
       \<and> (mallocFunc m (of_nat (length value)) (memory_data m) = (Inr VOther, mem) \<longrightarrow>
            fst (getField js m [dataPtr, dataLen, rtnPtr, rtnLen]) = Panic InterfaceConversion)
       \<and> (mallocFunc m (of_nat (length value)) (memory_data m) = (Inr (VInt32 valuePtr), mem)
            \<and> (2 ^ 32 \<le> unat valuePtr + unat (of_nat (length value) :: int32)
                 \<or> length mem < unat valuePtr + unat (of_nat (length value) :: int32)) \<longrightarrow>
            fst (getField js m [dataPtr, dataLen, rtnPtr, rtnLen]) = Panic SliceBoundsOutOfRange)
       \<and> (mallocFunc m (of_nat (length value)) (memory_data m) = (Inr (VInt32 valuePtr), mem)
            \<and> (2 ^ 32 \<le> unat rtnPtr + unat (4 :: int32) \<or> length mem < unat rtnPtr + unat (4 :: int32)) \<longrightarrow>
            fst (getField js m [dataPtr, dataLen, rtnPtr, rtnLen]) = Panic SliceBoundsOutOfRange)
       \<and> (mallocFunc m (of_nat (length value)) (memory_data m) = (Inr (VInt32 valuePtr), mem)
            \<and> (2 ^ 32 \<le> unat rtnLen + unat (4 :: int32) \<or> length mem < unat rtnLen + unat (4 :: int32)) \<longrightarrow>
            fst (getField js m [dataPtr, dataLen, rtnPtr, rtnLen]) = Panic SliceBoundsOutOfRange)
       \<and> (\<forall>e. fst (getField js m [dataPtr, dataLen, rtnPtr, rtnLen])
                 \<noteq> Return [Status_code StatusInternalFailure] e)"
proof -
  have 1: "mallocFunc m (of_nat (length value)) (memory_data m) = (Inl err, mem) \<longrightarrow>
            getField js m [dataPtr, dataLen, rtnPtr, rtnLen]
              = (Return [] (Some err),
                 m\<lparr>log_output := log_output m @ [LogGetField (bytes_of ''message'')],
                   memory_data := mem\<rparr>)"
    using assms by (simp add: getField_def malloc_def)
  have 2: "mallocFunc m (of_nat (length value)) (memory_data m) = (Inr VOther, mem) \<longrightarrow>
            fst (getField js m [dataPtr, dataLen, rtnPtr, rtnLen]) = Panic InterfaceConversion"
    using assms by (simp add: getField_def malloc_def)
  note out = out_slot_panics [OF assms]
  have 3: "mallocFunc m (of_nat (length value)) (memory_data m) = (Inr (VInt32 valuePtr), mem)
            \<and> (2 ^ 32 \<le> unat valuePtr + unat (of_nat (length value) :: int32)
                 \<or> length mem < unat valuePtr + unat (of_nat (length value) :: int32)) \<longrightarrow>
            fst (getField js m [dataPtr, dataLen, rtnPtr, rtnLen]) = Panic SliceBoundsOutOfRange"
    using out by blast
  have 4: "mallocFunc m (of_nat (length value)) (memory_data m) = (Inr (VInt32 valuePtr), mem)
            \<and> (2 ^ 32 \<le> unat rtnPtr + unat (4 :: int32) \<or> length mem < unat rtnPtr + unat (4 :: int32)) \<longrightarrow>
            fst (getField js m [dataPtr, dataLen, rtnPtr, rtnLen]) = Panic SliceBoundsOutOfRange"
    using out by blast
  have 5: "mallocFunc m (of_nat (length value)) (memory_data m) = (Inr (VInt32 valuePtr), mem)
            \<and> (2 ^ 32 \<le> unat rtnLen + unat (4 :: int32) \<or> length mem < unat rtnLen + unat (4 :: int32)) \<longrightarrow>
            fst (getField js m [dataPtr, dataLen, rtnPtr, rtnLen]) = Panic SliceBoundsOutOfRange"
    using out by blast
  have 6: "\<forall>e. fst (getField js m [dataPtr, dataLen, rtnPtr, rtnLen])
                 \<noteq> Return [Status_code StatusInternalFailure] e"
    using getField_outcomes [of js m "[dataPtr, dataLen, rtnPtr, rtnLen]"] by auto
  show ?thesis
    using 1 2 3 4 5 6 by (intro conjI) assumption+
qed

theorem getField_allocator_failure_witness:
  "memory_exported failing_module
   \<and> slice (memory_data failing_module) 0 (0 + 7) = Inr (bytes_of ''message'')
   \<and> Marshal plain_json raw = Inr (0x22 # raw @ [0x22])
   \<and> mallocFunc failing_module (of_nat (length (0x22 # raw @ [0x22]))) (memory_data failing_module)
        = (Inl (GuestTrap 0), example_memory)
   \<and> getField plain_json failing_module [0, 7, 100, 104]
        = (Return [] (Some (GuestTrap 0)),
           failing_module\<lparr>log_output := log_output failing_module @ [LogGetField (bytes_of ''message'')],
             memory_data := example_memory\<rparr>)
   \<and> fst (getField plain_json (example_module\<lparr>mallocFunc := (\<lambda>sz mem. (Inr VOther, mem))\<rparr>)
          [0, 7, 100, 104]) = Panic InterfaceConversion
   \<and> fst (getField plain_json (example_module\<lparr>mallocFunc := (\<lambda>sz mem. (Inr (VInt32 120), mem))\<rparr>)
          [0, 7, 100, 104]) = Panic SliceBoundsOutOfRange
   \<and> mallocFunc example_module (of_nat (length (0x22 # raw @ [0x22]))) (memory_data example_module)
        = (Inr (VInt32 16), example_memory)
   \<and> (2 ^ 32 \<le> unat (126 :: int32) + unat (4 :: int32)
        \<or> length example_memory < unat (126 :: int32) + unat (4 :: int32))
   \<and> fst (getField plain_json example_module [0, 7, 126, 104]) = Panic SliceBoundsOutOfRange
   \<and> fst (getField plain_json example_module [0, 7, 100, 126]) = Panic SliceBoundsOutOfRange
   \<and> (\<forall>e. fst (getField plain_json failing_module [0, 7, 100, 104])
              \<noteq> Return [Status_code StatusInternalFailure] e)"
proof -
  let ?other = "example_module\<lparr>mallocFunc := (\<lambda>sz mem. (Inr VOther, mem))\<rparr>"
  let ?far = "example_module\<lparr>mallocFunc := (\<lambda>sz mem. (Inr (VInt32 120), mem))\<rparr>"
  let ?V = "0x22 # raw @ [0x22]"
  have e: "Marshal plain_json raw = Inr ?V"
    by (simp add: plain_json_def plain_raw)
  have f1: "memory_exported failing_module"
    and f2: "slice (memory_data failing_module) 0 (0 + 7) = Inr (bytes_of ''message'')"
    and f3: "mallocFunc failing_module (of_nat (length ?V)) (memory_data failing_module)
        = (Inl (GuestTrap 0), example_memory)"
    by (simp_all add: failing_module_simps example_slices)
  have o1: "memory_exported ?other"
    and o2: "slice (memory_data ?other) 0 (0 + 7) = Inr (bytes_of ''message'')"
    and o3: "mallocFunc ?other (of_nat (length ?V)) (memory_data ?other) = (Inr VOther, example_memory)"
    by (simp_all add: example_module_simps example_slices)
  have r1: "memory_exported ?far"
    and r2: "slice (memory_data ?far) 0 (0 + 7) = Inr (bytes_of ''message'')"
    and r3: "mallocFunc ?far (of_nat (length ?V)) (memory_data ?far) = (Inr (VInt32 120), example_memory)"
    by (simp_all add: example_module_simps example_slices)
  have r4: "2 ^ 32 \<le> unat (120 :: int32) + unat (of_nat (length ?V) :: int32)
            \<or> length example_memory < unat (120 :: int32) + unat (of_nat (length ?V) :: int32)"
    by (simp add: length_example_memory length_raw)
  have x1: "memory_exported example_module"
    and x2: "slice (memory_data example_module) 0 (0 + 7) = Inr (bytes_of ''message'')"
    and x3: "mallocFunc example_module (of_nat (length ?V)) (memory_data example_module)
        = (Inr (VInt32 16), example_memory)"
    by (simp_all add: example_module_simps example_slices)
  have x4: "2 ^ 32 \<le> unat (126 :: int32) + unat (4 :: int32)
        \<or> length example_memory < unat (126 :: int32) + unat (4 :: int32)"
    by (simp add: length_example_memory)
  note a = getField_allocator_failure [OF f1 f2 e, where rtnPtr = 100 and rtnLen = 104]
  note a1 = a [THEN conjunct1, THEN mp, OF f3]
  note a6 = a [THEN conjunct2, THEN conjunct2, THEN conjunct2, THEN conjunct2, THEN conjunct2]
  note b = getField_allocator_failure [OF o1 o2 e, where rtnPtr = 100 and rtnLen = 104,
      THEN conjunct2, THEN conjunct1, THEN mp, OF o3]
  note c = getField_allocator_failure [OF r1 r2 e, where rtnPtr = 100 and rtnLen = 104,
      THEN conjunct2, THEN conjunct2, THEN conjunct1, THEN mp, OF conjI [OF r3 r4]]
  note d = getField_allocator_failure [OF x1 x2 e, where rtnPtr = 126 and rtnLen = 104,
      THEN conjunct2, THEN conjunct2, THEN conjunct2, THEN conjunct1, THEN mp, OF conjI [OF x3 x4]]
  note d' = getField_allocator_failure [OF x1 x2 e, where rtnPtr = 100 and rtnLen = 126,
      THEN conjunct2, THEN conjunct2, THEN conjunct2, THEN conjunct2, THEN conjunct1, THEN mp,
      OF conjI [OF x3 x4]]
  show ?thesis
    using f1 f2 e f3 a1 b c x3 x4 d d' a6
    by (intro conjI) assumption+
qed

text \<open>
  Against C7 as stated: with an allocator that always fails, get-field on the present field
  returns the allocator's error with an empty value list, not InternalFailure; and with an
  out slot that passes the end of the memory the store panics.
\<close>

theorem getField_allocator_failure_counterexample:
  "fst (getField plain_json failing_module [0, 7, 100, 104]) = Return [] (Some (GuestTrap 0))
   \<and> fst (getField plain_json failing_module [0, 7, 100, 104])
        \<noteq> Return [Status_code StatusInternalFailure] None
   \<and> fst (getField plain_json example_module [0, 7, 126, 104]) = Panic SliceBoundsOutOfRange"
proof -
  have n: "slice example_memory 0 (0 + 7) = Inr (bytes_of ''message'')"
    by (simp add: example_slices)
  have e: "Marshal plain_json raw = Inr (0x22 # raw @ [0x22])"
    by (simp add: plain_json_def plain_raw)
  have a: "fst (getField plain_json failing_module [0, 7, 100, 104]) = Return [] (Some (GuestTrap 0))"
    using n e by (simp add: getField_def malloc_def failing_module_simps)
  have i: "in_bounds example_memory 16 (length (0x22 # raw @ [0x22]))"
    by (simp add: in_bounds_def length_example_memory length_raw)
  have l: "length (take (unat (16 :: int32)) example_memory @ (0x22 # raw @ [0x22])
              @ drop (unat (16 :: int32) + length (0x22 # raw @ [0x22])) example_memory) < unat (126 :: int32) + unat (4 :: int32)"
    using store_length [of "unat (16 :: int32)" "0x22 # raw @ [0x22]" example_memory]
    by (simp add: length_example_memory length_raw)
  have p: "PutUint32 (take (unat (16 :: int32)) example_memory @ (0x22 # raw @ [0x22])
              @ drop (unat (16 :: int32) + length (0x22 # raw @ [0x22])) example_memory) 126 (126 + 4) 16
            = Inl SliceBoundsOutOfRange"
    by (rule slice_out_of_range(3) [OF slice_bounds_out_of_range [OF disjI2 [OF l]]])
  have b: "fst (getField plain_json example_module [0, 7, 126, 104]) = Panic SliceBoundsOutOfRange"
    using n e copy_bytes_in_bounds [OF i] p
    by (simp add: getField_def malloc_def example_module_simps length_raw)
  show ?thesis using a b by simp
qed

section \<open>The time stamp\<close>

lemma getCurrentTime_in_bounds:
  assumes "memory_exported m" and "in_bounds (memory_data m) ptr 8"
  shows "getCurrentTime now m [ptr]
           = (Return [0] None,
              m\<lparr>memory_data := take (unat ptr) (memory_data m) @ le64 now
                                 @ drop (unat ptr + 8) (memory_data m)\<rparr>)"
  using assms(1) PutUint64_in_bounds [OF assms(2)] by (simp add: getCurrentTime_def)

text \<open>
  C8, as the code has it. With the memory exported and the 8 bytes at the pointer a range
  the host accepts, get-current-time stores the clock reading there as 8 little-endian
  bytes, changes no other byte and returns the status OK with a nil error. A second call
  on the resulting module stores the second reading in the same way, so the values stored
  follow the readings of the host's wall clock: with readings that do not decrease, the
  stored values do not decrease. When the 8 bytes overflow or pass the end of the memory
  the call panics; no status is returned.
\<close>

theorem getCurrentTime_writes_clock:
  fixes m :: "'v wasmModule"
  assumes exported: "memory_exported m"
    and first: "in_bounds (memory_data m) ptr 8"
    and second: "in_bounds (memory_data m) ptr' 8"
    and clock: "now \<le> now'"
  defines "m1 \<equiv> snd (getCurrentTime now m [ptr])"
  defines "m2 \<equiv> snd (getCurrentTime now' m1 [ptr'])"
  shows "fst (getCurrentTime now m [ptr]) = Return [Status_code StatusOK] None
       \<and> length (memory_data m1) = length (memory_data m)
       \<and> take 8 (drop (unat ptr) (memory_data m1)) = le64 now
       \<and> little_endian (take 8 (drop (unat ptr) (memory_data m1))) = now
       \<and> (\<forall>a k. a + k \<le> unat ptr \<or> unat ptr + 8 \<le> a \<longrightarrow>
             take k (drop a (memory_data m1)) = take k (drop a (memory_data m)))
       \<and> fst (getCurrentTime now' m1 [ptr']) = Return [Status_code StatusOK] None
       \<and> little_endian (take 8 (drop (unat ptr') (memory_data m2))) = now'
       \<and> (little_endian (take 8 (drop (unat ptr) (memory_data m1))) :: uint64)
            \<le> little_endian (take 8 (drop (unat ptr') (memory_data m2)))
       \<and> (2 ^ 32 \<le> unat q + unat (8 :: int32) \<or> length (memory_data m) < unat q + unat (8 :: int32) \<longrightarrow>
             getCurrentTime now m [q] = (Panic SliceBoundsOutOfRange, m))"
proof -
  define P where "P = unat ptr"
  define P' where "P' = unat ptr'"
  have b: "P + 8 \<le> length (memory_data m)" and b': "P' + 8 \<le> length (memory_data m)"
    using first second by (simp_all add: in_bounds_def P_def P'_def)
  have g1: "getCurrentTime now m [ptr]
           = (Return [0] None,
              m\<lparr>memory_data := take P (memory_data m) @ le64 now @ drop (P + 8) (memory_data m)\<rparr>)"
    unfolding P_def using exported first by (rule getCurrentTime_in_bounds)
  then have m1: "memory_data m1 = take P (memory_data m) @ le64 now @ drop (P + 8) (memory_data m)"
    and e1: "memory_exported m1"
    using exported by (simp_all add: m1_def)
  have l1: "length (memory_data m1) = length (memory_data m)"
    unfolding m1 using b by (rule store_le64_length)
  have r1: "take 8 (drop P (memory_data m1)) = le64 now"
    unfolding m1 using b by (rule store_le64_read)
  have o1: "\<forall>a k. a + k \<le> P \<or> P + 8 \<le> a \<longrightarrow>
             take k (drop a (memory_data m1)) = take k (drop a (memory_data m))"
    unfolding m1 using store_le64_other [OF b] by blast
  have second1: "in_bounds (memory_data m1) ptr' 8"
    using second in_bounds_length [OF l1] by simp
  have g2: "getCurrentTime now' m1 [ptr']
           = (Return [0] None,
              m1\<lparr>memory_data := take P' (memory_data m1) @ le64 now' @ drop (P' + 8) (memory_data m1)\<rparr>)"
    unfolding P'_def using e1 second1 by (rule getCurrentTime_in_bounds)
  then have m2: "memory_data m2 = take P' (memory_data m1) @ le64 now' @ drop (P' + 8) (memory_data m1)"
    by (simp add: m2_def)
  have r2: "take 8 (drop P' (memory_data m2)) = le64 now'"
    unfolding m2 using b' l1 by (intro store_le64_read) simp
  have p: "2 ^ 32 \<le> unat q + unat (8 :: int32) \<or> length (memory_data m) < unat q + unat (8 :: int32) \<longrightarrow>
             getCurrentTime now m [q] = (Panic SliceBoundsOutOfRange, m)"
  proof
    assume "2 ^ 32 \<le> unat q + unat (8 :: int32) \<or> length (memory_data m) < unat q + unat (8 :: int32)"
    then have "PutUint64 (memory_data m) q (q + 8) now = Inl SliceBoundsOutOfRange"
      by (rule slice_out_of_range(4) [OF slice_bounds_out_of_range])
    then show "getCurrentTime now m [q] = (Panic SliceBoundsOutOfRange, m)"
      using exported by (simp add: getCurrentTime_def)
  qed
  show ?thesis
    using g1 g2 l1 r1 r2 o1 p clock
    by (simp add: little_endian_le64 flip: P_def P'_def)
qed

theorem getCurrentTime_writes_clock_witness:
  "memory_exported example_module
   \<and> in_bounds (memory_data example_module) 32 8
   \<and> in_bounds (memory_data example_module) 40 8
   \<and> (1700000000000000000 :: uint64) \<le> 1700000000000000001
   \<and> fst (getCurrentTime 1700000000000000000 example_module [32]) = Return [Status_code StatusOK] None
   \<and> take 8 (drop (unat (32 :: int32))
         (memory_data (snd (getCurrentTime 1700000000000000000 example_module [32]))))
        = le64 1700000000000000000
   \<and> little_endian (take 8 (drop (unat (32 :: int32))
         (memory_data (snd (getCurrentTime 1700000000000000000 example_module [32])))))
        = (1700000000000000000 :: uint64)
   \<and> little_endian (take 8 (drop (unat (40 :: int32))
         (memory_data (snd (getCurrentTime 1700000000000000001
            (snd (getCurrentTime 1700000000000000000 example_module [32])) [40])))))
        = (1700000000000000001 :: uint64)
   \<and> getCurrentTime 1700000000000000000 example_module [125] = (Panic SliceBoundsOutOfRange, example_module)"
proof -
  have h1: "memory_exported example_module"
    by (simp add: example_module_simps)
  have h2: "in_bounds (memory_data example_module) 32 8"
    by (simp add: in_bounds_def example_module_simps length_example_memory)
  have h3: "in_bounds (memory_data example_module) 40 8"
    by (simp add: in_bounds_def example_module_simps length_example_memory)
  have h4: "(1700000000000000000 :: uint64) \<le> 1700000000000000001"
    by simp
  have h5: "2 ^ 32 \<le> unat (125 :: int32) + unat (8 :: int32)
            \<or> length (memory_data example_module) < unat (125 :: int32) + unat (8 :: int32)"
    by (simp add: example_module_simps length_example_memory)
  show ?thesis
    using h1 h2 h3 h4 h5 getCurrentTime_writes_clock [OF h1 h2 h3 h4, of 125]
    by blast
qed

text \<open>
  Against C8 as stated: with the pointer 125 in a memory of 128 bytes the call panics
  instead of returning InternalFailure; and when the wall clock reads less at the second
  call than at the first, the value stored second is the smaller one.
\<close>

theorem getCurrentTime_writes_clock_counterexample:
  "fst (getCurrentTime 1700000000000000000 example_module [125]) = Panic SliceBoundsOutOfRange
   \<and> little_endian (take 8 (drop (unat (32 :: int32))
         (memory_data (snd (getCurrentTime 1700000000000000005 example_module [32])))))
        = (1700000000000000005 :: uint64)
   \<and> little_endian (take 8 (drop (unat (32 :: int32))
         (memory_data (snd (getCurrentTime 1700000000000000003
            (snd (getCurrentTime 1700000000000000005 example_module [32])) [32])))))
        = (1700000000000000003 :: uint64)
   \<and> \<not> (1700000000000000005 :: uint64) \<le> 1700000000000000003"
proof -
  have h1: "memory_exported example_module"
    by (simp add: example_module_simps)
  have h2: "in_bounds (memory_data example_module) 32 8"
    by (simp add: in_bounds_def example_module_simps length_example_memory)
  have "2 ^ 32 \<le> unat (125 :: int32) + unat (8 :: int32)
            \<or> length (memory_data example_module) < unat (125 :: int32) + unat (8 :: int32)"
    by (simp add: example_module_simps length_example_memory)
  then have "PutUint64 (memory_data example_module) 125 (125 + 8) 1700000000000000000 = Inl SliceBoundsOutOfRange"
    by (rule slice_out_of_range(4) [OF slice_bounds_out_of_range])
  then have a: "fst (getCurrentTime 1700000000000000000 example_module [125]) = Panic SliceBoundsOutOfRange"
    using h1 by (simp add: getCurrentTime_def)
  define m1 where "m1 = snd (getCurrentTime 1700000000000000005 example_module [32])"
  have g1: "memory_data m1 = take (unat (32 :: int32)) (memory_data example_module) @ le64 1700000000000000005
              @ drop (unat (32 :: int32) + 8) (memory_data example_module)"
    and e1: "memory_exported m1"
    using getCurrentTime_in_bounds [OF h1 h2, of 1700000000000000005] h1 by (simp_all add: m1_def)
  have b: "unat (32 :: int32) + 8 \<le> length (memory_data example_module)"
    by (simp add: example_module_simps length_example_memory)
  have l1: "length (memory_data m1) = length (memory_data example_module)"
    unfolding g1 using b by (rule store_le64_length)
  have r1: "take 8 (drop (unat (32 :: int32)) (memory_data m1)) = le64 1700000000000000005"
    unfolding g1 using b by (rule store_le64_read)
  have i1: "in_bounds (memory_data m1) 32 8"
    using h2 in_bounds_length [OF l1] by simp
  have b1: "unat (32 :: int32) + 8 \<le> length (memory_data m1)"
    using b l1 by simp
  have g2: "memory_data (snd (getCurrentTime 1700000000000000003 m1 [32]))
            = take (unat (32 :: int32)) (memory_data m1) @ le64 1700000000000000003
              @ drop (unat (32 :: int32) + 8) (memory_data m1)"
    using getCurrentTime_in_bounds [OF e1 i1, of 1700000000000000003] by simp
  have r2: "take 8 (drop (unat (32 :: int32)) (memory_data (snd (getCurrentTime 1700000000000000003 m1 [32]))))
            = le64 1700000000000000003"
    unfolding g2 using b1 by (rule store_le64_read)
  have c: "\<not> (1700000000000000005 :: uint64) \<le> 1700000000000000003"
    by simp
  show ?thesis
    using a r1 r2 c unfolding m1_def by (simp only: little_endian_le64 simp_thms)
qed

section \<open>What the host functions change\<close>








end
